theory Spec2Isabelle
  imports Complex_Main "HOL-Library.Sublist" "HOL-Library.Char_ord" "HOL-Library.Multiset"
begin

section \<open>Gateway: the retry wrapper \<open>axiosWithRetry\<close>\<close>

text \<open>
  The error object thrown by the HTTP client, with the three fields the wrapper reads:
  \<open>error.code\<close>, \<open>error.message\<close> and \<open>error.response?.status\<close> (absent when no
  response was received), and the field the login route reads,
  \<open>err.response.data?.error?.message\<close>.
\<close>

record axios_error =
  err_code :: string
  err_message :: string
  err_status :: "nat option"
  err_response_message :: "string option"

text \<open>\<open>s.includes(sub)\<close>: \<open>sub\<close> occurs in \<open>s\<close> as a contiguous run of characters.\<close>

fun str_includes :: "string \<Rightarrow> string \<Rightarrow> bool" where
  "str_includes [] sub = (sub = [])"
| "str_includes (c # cs) sub = (prefix sub (c # cs) \<or> str_includes cs sub)"

definition isTimeout :: "axios_error \<Rightarrow> bool" where
  "isTimeout error \<longleftrightarrow> err_code error = ''ECONNABORTED'' \<or> str_includes (err_message error) ''timeout''"

definition isServerErr :: "axios_error \<Rightarrow> bool" where
  "isServerErr error \<longleftrightarrow> (case err_status error of None \<Rightarrow> False | Some s \<Rightarrow> s \<ge> 500)"

text \<open>
  What the wrapper does, in order: a call of the HTTP client, or a wait of the given
  number of milliseconds.
\<close>

datatype step = Attempt | Delay int

text \<open>
  The vendor is a function from the number of calls made so far to the outcome of the
  next call: \<open>Inl\<close> an error thrown by the client, \<open>Inr\<close> a response. The wrapper
  returns its own outcome together with the steps it performed. The routes call it with
  the default \<open>retries = 3\<close>.
\<close>

fun axiosWithRetry :: "(nat \<Rightarrow> axios_error + 'r) \<Rightarrow> nat \<Rightarrow> (axios_error + 'r) \<times> step list" where
  "axiosWithRetry axios retries =
     (case axios 0 of
        Inr resp \<Rightarrow> (Inr resp, [Attempt])
      | Inl error \<Rightarrow>
          if retries > 0 \<and> (isTimeout error \<or> isServerErr error) then
            let delay = (4 - int retries) * 1000;
                (res, steps) = axiosWithRetry (\<lambda>n. axios (Suc n)) (retries - 1)
            in (res, Attempt # Delay delay # steps)
          else (Inl error, [Attempt]))"

definition attempts :: "step list \<Rightarrow> nat" where
  "attempts steps = length (filter (\<lambda>s. s = Attempt) steps)"

section \<open>Session manager: the session table and its persistence\<close>

record session =
  s_token :: string
  s_clientVersion :: string
  s_userId :: string
  s_accountId :: string
  s_region :: string
  s_baseURL :: string

text \<open>
  The server state: the in-memory table \<open>sessions\<close> (a JavaScript \<open>Map\<close>) and the
  content of \<open>data/sessions.json\<close>, \<open>None\<close> while the file does not exist.
\<close>

record server =
  sessions :: "string \<rightharpoonup> session"
  sessionsFile :: "(string \<rightharpoonup> session) option"

text \<open>
  The outcome of \<open>fs.writeFile\<close>: it succeeds, or it throws and leaves the file with
  the given content.
\<close>

datatype write_outcome = WriteOk | WriteFails "(string \<rightharpoonup> session) option"

text \<open>\<open>saveSessions\<close> catches every exception of the write and ignores it.\<close>

definition saveSessions :: "write_outcome \<Rightarrow> server \<Rightarrow> server" where
  "saveSessions w s =
     (case w of
        WriteOk \<Rightarrow> s\<lparr>sessionsFile := Some (sessions s)\<rparr>
      | WriteFails left \<Rightarrow> s\<lparr>sessionsFile := left\<rparr>)"

text \<open>JavaScript truthiness of an optional string: present and not empty.\<close>

definition truthy :: "string option \<Rightarrow> bool" where
  "truthy x \<longleftrightarrow> (case x of None \<Rightarrow> False | Some s \<Rightarrow> s \<noteq> [])"

text \<open>\<open>toUpperCase\<close> on the ASCII letters, which are all that reach a region code.\<close>

definition upper_char :: "char \<Rightarrow> char" where
  "upper_char c = (if CHR ''a'' \<le> c \<and> c \<le> CHR ''z'' then char_of (of_char c - (32::nat)) else c)"

definition toUpperCase :: "string \<Rightarrow> string" where
  "toUpperCase s = map upper_char s"

text \<open>\<open>x || d\<close> on an optional string.\<close>

definition or_else :: "string option \<Rightarrow> string \<Rightarrow> string" where
  "or_else x d = (case x of None \<Rightarrow> d | Some s \<Rightarrow> if s = [] then d else s)"

text \<open>\<open>a ?? b\<close>: the left operand unless it is null or undefined.\<close>

definition nullish :: "'a option \<Rightarrow> 'a option \<Rightarrow> 'a option" where
  "nullish a b = (case a of Some x \<Rightarrow> Some x | None \<Rightarrow> b)"

definition getBaseUrl :: "string option \<Rightarrow> string" where
  "getBaseUrl region =
     (let r = toUpperCase (or_else region ''EU'') in
      if r = ''US'' then ''https://api-us.libreview.io''
      else if r = ''AE'' then ''https://api-ae.libreview.io''
      else if r = ''JP'' then ''https://api-jp.libreview.io''
      else if r = ''AP'' then ''https://api-ap.libreview.io''
      else ''https://api-eu.libreview.io'')"

section \<open>HTTP responses of the gateway\<close>

text \<open>
  Dates: \<open>new Date(x)\<close> is either an instant in milliseconds since the epoch or an
  Invalid Date. A number outside \<open>\<plusminus>8.64e15\<close> gives an Invalid Date, and
  \<open>toISOString\<close> throws a RangeError on an Invalid Date. An ISO string is represented
  by the instant it denotes.
\<close>

datatype jsdate = InvalidDate | ValidDate int

definition newDate :: "int \<Rightarrow> jsdate" where
  "newDate ms = (if \<bar>ms\<bar> \<le> 8640000000000000 then ValidDate ms else InvalidDate)"

datatype exn = AxiosError axios_error | RangeError

definition toISOString :: "jsdate \<Rightarrow> exn + int" where
  "toISOString d = (case d of InvalidDate \<Rightarrow> Inl RangeError | ValidDate ms \<Rightarrow> Inr ms)"

text \<open>
  The sensor state strings: 1 warm-up (\<open>Isiniyor\<close>), 2 active (\<open>Aktif\<close>), 3 expired
  (\<open>Suresi Doldu\<close>), 4 ended (\<open>Bitti\<close>), 5 error (\<open>Hata\<close>), and \<open>Durum pt\<close> for
  every other code, the absent one included.
\<close>

datatype sensor_state = Isiniyor | Aktif | SuresiDoldu | Bitti | Hata | Durum "int option"

record sensorInfo =
  si_serial :: string
  si_startDate :: int
  si_endDate :: int
  si_daysLeft :: int
  si_state :: sensor_state

record reading_json =
  rj_value :: "int option"
  rj_timestamp :: int
  rj_trendArrow :: "int option"
  rj_sensor :: "sensorInfo option"

text \<open>
  Response bodies. The error texts of the source are Turkish; they are written here
  without diacritics.
\<close>

datatype body =
    NoBody
  | ErrorBody string
  | ConnectBody string
  | ReadingBody reading_json
  | SuccessBody

record response =
  http_status :: nat
  http_body :: body

definition json :: "body \<Rightarrow> response" where
  "json b = \<lparr>http_status = 200, http_body = b\<rparr>"

definition status_json :: "nat \<Rightarrow> body \<Rightarrow> response" where
  "status_json code b = \<lparr>http_status = code, http_body = b\<rparr>"

definition status_end :: "nat \<Rightarrow> response" where
  "status_end code = \<lparr>http_status = code, http_body = NoBody\<rparr>"

section \<open>Route \<open>POST /api/libre/connect\<close>\<close>

record connect_body =
  cb_email :: "string option"
  cb_password :: "string option"
  cb_region :: "string option"
  cb_clientVersion :: "string option"

text \<open>
  The fields of the vendor's login response that the route reads: \<open>data.status\<close>,
  \<open>data.data?.authTicket?.token\<close> and \<open>data.data?.user?.id\<close>. The response data as a
  whole may be missing.
\<close>

record login_payload =
  lp_status :: "int option"
  lp_token :: "string option"
  lp_userId :: "string option"

text \<open>The \<open>catch\<close> block of the login route.\<close>

definition connect_catch :: "axios_error \<Rightarrow> response" where
  "connect_catch err =
     (if err_code err = ''ECONNABORTED'' \<or> str_includes (err_message err) ''timeout'' then
        status_json 504 (ErrorBody ''Libre sunucusuna ulasilamadi (Zaman Asimi).'')
      else case err_status err of
        Some st \<Rightarrow> status_json st (ErrorBody (or_else (err_response_message err) ''Giris hatasi.''))
      | None \<Rightarrow> status_json 500 (ErrorBody ''Sunucu hatasi.''))"

text \<open>
  The login route. \<open>sha256\<close> is the hex digest of the hash function, \<open>uuidv4\<close> the
  identifier the generator returns for this request, \<open>w\<close> the outcome of the write to
  disk and \<open>vendor\<close> the vendor's login endpoint, which throws on a status outside 2xx.
\<close>

definition connect_route ::
  "(string \<Rightarrow> string) \<Rightarrow> string \<Rightarrow> write_outcome \<Rightarrow> (nat \<Rightarrow> axios_error + login_payload option)
     \<Rightarrow> connect_body \<Rightarrow> server \<Rightarrow> response \<times> server" where
  "connect_route sha256 uuidv4 w vendor reqbody s =
     (if \<not> truthy (cb_email reqbody) \<or> \<not> truthy (cb_password reqbody) then
        (status_json 400 (ErrorBody ''E-posta ve sifre gereklidir.''), s)
      else
        let clientVersion = or_else (cb_clientVersion reqbody) ''4.16.0'';
            baseURL = getBaseUrl (cb_region reqbody)
        in case fst (axiosWithRetry vendor 3) of
             Inl err \<Rightarrow> (connect_catch err, s)
           | Inr loginResp \<Rightarrow>
               (case loginResp of
                  None \<Rightarrow> (status_json 403 (ErrorBody ''Giris basarisiz. Bilgileri kontrol edin.''), s)
                | Some d \<Rightarrow>
                    if lp_status d \<noteq> Some 0 \<and> \<not> truthy (lp_token d) then
                      (status_json 403 (ErrorBody ''Giris basarisiz. Bilgileri kontrol edin.''), s)
                    else if \<not> truthy (lp_token d) \<or> \<not> truthy (lp_userId d) then
                      (status_json 403 (ErrorBody ''Token alinamadi.''), s)
                    else
                      let tok = or_else (lp_token d) [];
                          uid = or_else (lp_userId d) [];
                          sessionId = uuidv4;
                          s1 = s\<lparr>sessions := (sessions s)(sessionId \<mapsto>
                                 \<lparr>s_token = tok, s_clientVersion = clientVersion, s_userId = uid,
                                  s_accountId = sha256 uid, s_region = or_else (cb_region reqbody) ''EU'',
                                  s_baseURL = baseURL\<rparr>)\<rparr>
                      in (json (ConnectBody sessionId), saveSessions w s1)))"

section \<open>Route \<open>POST /api/libre/disconnect\<close>\<close>

definition disconnect_route :: "write_outcome \<Rightarrow> string option \<Rightarrow> server \<Rightarrow> response \<times> server" where
  "disconnect_route w sessionId s =
     (let s1 = (case sessionId of
                  None \<Rightarrow> s
                | Some sid \<Rightarrow> if sid \<noteq> [] then s\<lparr>sessions := (sessions s)(sid := None)\<rparr> else s)
      in (json SuccessBody, saveSessions w s1))"

section \<open>Route \<open>GET /api/libre/read\<close>\<close>

text \<open>
  The vendor's payloads, with the fields the route reads. A timestamp field of the vendor
  is represented by the date \<open>new Date\<close> makes of it.
\<close>

record glucose =
  gm_Value :: "int option"
  gm_value :: "int option"
  gm_Timestamp :: "jsdate option"
  gm_MeasurementDate :: "jsdate option"
  gm_TrendArrow :: "int option"
  gm_trendArrow :: "int option"

record vendor_sensor =
  vs_a :: "int option"
  vs_sn :: string
  vs_pt :: "int option"

record connection =
  c_pending :: "bool option"
  c_patientId :: string
  c_connection_glucoseMeasurement :: "glucose option"
  c_glucoseMeasurement :: "glucose option"
  c_sensor :: "vendor_sensor option"

text \<open>
  The connections response: its HTTP status and \<open>cons.data?.data\<close> when that is an
  array. Both read requests are made with \<open>validateStatus: () => true\<close>, so a response of
  any status is returned, not thrown.
\<close>

record cons_response =
  cons_status :: nat
  cons_data :: "connection list option"

text \<open>A graph item, with the same aliased fields as a glucose measurement.\<close>

record graph_item =
  gi_Value :: "int option"
  gi_value :: "int option"
  gi_Timestamp :: "jsdate option"
  gi_MeasurementDate :: "jsdate option"

record graph_response =
  hist_status :: nat
  hist_graphData :: "graph_item list option"

definition bind_exn :: "exn + 'a \<Rightarrow> ('a \<Rightarrow> exn + 'b) \<Rightarrow> exn + 'b" where
  "bind_exn m f = (case m of Inl e \<Rightarrow> Inl e | Inr x \<Rightarrow> f x)"

text \<open>The first connection that is not pending, or else the first connection.\<close>

definition select_first :: "connection list option \<Rightarrow> connection option" where
  "select_first data =
     (case data of
        None \<Rightarrow> None
      | Some cs \<Rightarrow>
          (case find (\<lambda>c. c_pending c = Some False) cs of
             Some c \<Rightarrow> Some c
           | None \<Rightarrow> (case cs of [] \<Rightarrow> None | c # _ \<Rightarrow> Some c)))"

definition gm_reading :: "int \<Rightarrow> glucose \<Rightarrow> exn + reading_json" where
  "gm_reading now gm =
     bind_exn
       (toISOString (case nullish (gm_Timestamp gm) (gm_MeasurementDate gm) of
                       Some d \<Rightarrow> d | None \<Rightarrow> ValidDate now))
       (\<lambda>ts. Inr \<lparr>rj_value = Some (case nullish (gm_Value gm) (gm_value gm) of Some v \<Rightarrow> v | None \<Rightarrow> 0),
                   rj_timestamp = ts, rj_trendArrow = None, rj_sensor = None\<rparr>)"

definition stateStr :: "int option \<Rightarrow> sensor_state" where
  "stateStr pt =
     (if pt = Some 1 then Isiniyor
      else if pt = Some 2 then Aktif
      else if pt = Some 3 then SuresiDoldu
      else if pt = Some 4 then Bitti
      else if pt = Some 5 then Hata
      else Durum pt)"

text \<open>\<open>Math.ceil(n / d)\<close> on integers \<open>n\<close> and \<open>d > 0\<close>, computed exactly.\<close>

definition ceil_div :: "int \<Rightarrow> int \<Rightarrow> int" where
  "ceil_div n d = - ((- n) div d)"

definition day_ms :: int where
  "day_ms = 1000 * 60 * 60 * 24"

text \<open>
  The wear-life computation, from the end date and the current time \<open>Date.now()\<close>. The
  source computes it in double precision, the model in integers. The two agree when
  \<open>now\<close> is not negative, that is, for a clock at or after the epoch: the end date is a
  valid date, so a difference that is not negative is below \<open>2^53\<close> and exact, and its
  quotient by the length of a day (below \<open>2^27\<close>) is rounded by less than its distance
  to the next integer; a negative difference stays negative when rounded and gives 0 in
  both. For a negative \<open>now\<close> the difference can exceed \<open>2^53\<close>, where the double is
  rounded and the model is not.
\<close>

definition calc_daysLeft :: "int \<Rightarrow> int \<Rightarrow> int" where
  "calc_daysLeft endMs now = max 0 (ceil_div (endMs - now) day_ms)"

text \<open>
  The end date of a sensor whose activation epoch (in seconds) passes the test
  \<open>if (activationTimestamp)\<close>.
\<close>

definition sensor_endDate :: "jsdate \<Rightarrow> jsdate" where
  "sensor_endDate startD =
     (case startD of
        InvalidDate \<Rightarrow> InvalidDate
      | ValidDate t \<Rightarrow> newDate (t + 14 * 24 * 60 * 60 * 1000))"

definition sensor_info :: "int \<Rightarrow> vendor_sensor \<Rightarrow> exn + sensorInfo" where
  "sensor_info now sensor =
     (let activated = (case vs_a sensor of None \<Rightarrow> False | Some a \<Rightarrow> a \<noteq> 0);
          startD = (if activated then newDate (the (vs_a sensor) * 1000) else ValidDate now);
          endD = (if activated then sensor_endDate startD else ValidDate now)
      in bind_exn (toISOString startD) (\<lambda>st.
         bind_exn (toISOString endD) (\<lambda>en.
           Inr \<lparr>si_serial = vs_sn sensor, si_startDate = st, si_endDate = en,
                si_daysLeft = (if activated then calc_daysLeft en now else 0),
                si_state = stateStr (vs_pt sensor)\<rparr>)))"

text \<open>
  \<open>new Date(x.Timestamp).getTime()\<close> of a graph item: \<open>None\<close> is NaN, the time of an
  Invalid Date and of a missing field.
\<close>

definition item_time :: "graph_item \<Rightarrow> int option" where
  "item_time x = (case gi_Timestamp x of Some (ValidDate t) \<Rightarrow> Some t | _ \<Rightarrow> None)"

text \<open>
  The comparator \<open>(a, b) => new Date(b.Timestamp).getTime() - new Date(a.Timestamp).getTime()\<close>
  as the sort reads it: a result of NaN counts as 0.
\<close>

definition compare_items :: "graph_item \<Rightarrow> graph_item \<Rightarrow> int" where
  "compare_items a b =
     (case item_time b of
        None \<Rightarrow> 0
      | Some tb \<Rightarrow> (case item_time a of None \<Rightarrow> 0 | Some ta \<Rightarrow> tb - ta))"

text \<open>
  \<open>items.sort(comparator)\<close>, by stable insertion. When every item has a valid date the
  comparator is consistent and this is the only result a stable sort can give, the items
  by decreasing time. When a date is invalid the comparator is inconsistent and the
  language leaves the order to the implementation; the model then has the order that
  insertion gives.
\<close>

fun insert_item :: "graph_item \<Rightarrow> graph_item list \<Rightarrow> graph_item list" where
  "insert_item x [] = [x]"
| "insert_item x (y # ys) = (if compare_items x y \<le> 0 then x # y # ys else y # insert_item x ys)"

definition sort_items :: "graph_item list \<Rightarrow> graph_item list" where
  "sort_items items = foldr insert_item items []"

text \<open>\<open>items.sort(...)[0]\<close>, when the array is not empty.\<close>

definition latest_item :: "graph_item list \<Rightarrow> graph_item option" where
  "latest_item items = (case sort_items items of [] \<Rightarrow> None | item # _ \<Rightarrow> Some item)"

text \<open>The reading made of the latest graph item; \<open>toISOString\<close> throws on an Invalid Date.\<close>

definition graph_reading :: "int \<Rightarrow> graph_item \<Rightarrow> exn + reading_json" where
  "graph_reading now item =
     bind_exn
       (toISOString (case nullish (gi_Timestamp item) (gi_MeasurementDate item) of
                       Some d \<Rightarrow> d | None \<Rightarrow> ValidDate now))
       (\<lambda>ts. Inr \<lparr>rj_value = Some (case nullish (gi_Value item) (gi_value item) of Some v \<Rightarrow> v | None \<Rightarrow> 0),
                   rj_timestamp = ts, rj_trendArrow = None, rj_sensor = None\<rparr>)"

text \<open>The final \<open>if (reading) ... else if (sensorInfo) ... else ...\<close> of the route.\<close>

definition respond :: "int \<Rightarrow> reading_json option \<Rightarrow> int option \<Rightarrow> sensorInfo option \<Rightarrow> response" where
  "respond now reading trendArrow sensorInfo =
     (case reading of
        Some r \<Rightarrow> json (ReadingBody (r\<lparr>rj_trendArrow := trendArrow, rj_sensor := sensorInfo\<rparr>))
      | None \<Rightarrow>
          (case sensorInfo of
             Some si \<Rightarrow> json (ReadingBody \<lparr>rj_value = None, rj_timestamp = now,
                                             rj_trendArrow = None, rj_sensor = Some si\<rparr>)
           | None \<Rightarrow> status_end 204))"

text \<open>The part of the route after a connection has been selected.\<close>

definition read_first ::
  "int \<Rightarrow> (nat \<Rightarrow> axios_error + graph_response) \<Rightarrow> connection \<Rightarrow> exn + response" where
  "read_first now vgraph first =
     (let gm = nullish (c_connection_glucoseMeasurement first) (c_glucoseMeasurement first) in
      bind_exn (case gm of None \<Rightarrow> Inr None
                | Some g \<Rightarrow> bind_exn (gm_reading now g) (\<lambda>r. Inr (Some r))) (\<lambda>reading0.
      let trendArrow = (case gm of None \<Rightarrow> None | Some g \<Rightarrow> nullish (gm_TrendArrow g) (gm_trendArrow g)) in
      bind_exn (case c_sensor first of None \<Rightarrow> Inr None
                | Some sn \<Rightarrow> bind_exn (sensor_info now sn) (\<lambda>si. Inr (Some si))) (\<lambda>sensorInfo.
      let isStale = (case reading0 of None \<Rightarrow> True | Some r \<Rightarrow> now - rj_timestamp r > 15 * 60 * 1000);
          isWarmingUp = (case sensorInfo of None \<Rightarrow> False | Some si \<Rightarrow> si_state si = Isiniyor)
      in
      bind_exn (if isStale \<and> \<not> isWarmingUp then
                  (case fst (axiosWithRetry vgraph 3) of
                     Inl err \<Rightarrow> Inl (AxiosError err)
                   | Inr hist \<Rightarrow>
                       (case latest_item (case hist_graphData hist of None \<Rightarrow> [] | Some items \<Rightarrow> items) of
                          None \<Rightarrow> Inr reading0
                        | Some item \<Rightarrow> bind_exn (graph_reading now item) (\<lambda>r. Inr (Some r))))
                else Inr reading0) (\<lambda>reading.
      Inr (respond now reading trendArrow sensorInfo)))))"

text \<open>The \<open>try\<close> block of the route: \<open>Inl\<close> is an exception thrown inside it.\<close>

definition read_try ::
  "int \<Rightarrow> (nat \<Rightarrow> axios_error + cons_response) \<Rightarrow> (nat \<Rightarrow> axios_error + graph_response)
     \<Rightarrow> string option \<Rightarrow> server \<Rightarrow> exn + response \<times> server" where
  "read_try now vcons vgraph sessionId s =
     (case sessionId of
        None \<Rightarrow> Inr (status_json 400 (ErrorBody ''sessionId missing''), s)
      | Some sid \<Rightarrow>
          if sid = [] then Inr (status_json 400 (ErrorBody ''sessionId missing''), s)
          else
            (case sessions s sid of
               None \<Rightarrow> Inr (status_json 401 (ErrorBody ''Session not found''), s)
             | Some session \<Rightarrow>
                 (case fst (axiosWithRetry vcons 3) of
                    Inl err \<Rightarrow> Inl (AxiosError err)
                  | Inr cons \<Rightarrow>
                      if cons_status cons = 401 then
                        Inr (status_json 401 (ErrorBody ''Token expired''),
                             s\<lparr>sessions := (sessions s)(sid := None)\<rparr>)
                      else
                        (case select_first (cons_data cons) of
                           None \<Rightarrow> Inr (status_end 204, s)
                         | Some first \<Rightarrow>
                             bind_exn (read_first now vgraph first) (\<lambda>resp. Inr (resp, s))))))"

text \<open>The route: its \<open>catch\<close> block answers every exception with an empty 204.\<close>

definition read_route ::
  "int \<Rightarrow> (nat \<Rightarrow> axios_error + cons_response) \<Rightarrow> (nat \<Rightarrow> axios_error + graph_response)
     \<Rightarrow> string option \<Rightarrow> server \<Rightarrow> response \<times> server" where
  "read_route now vcons vgraph sessionId s =
     (case read_try now vcons vgraph sessionId s of
        Inl err \<Rightarrow> (status_end 204, s)
      | Inr r \<Rightarrow> r)"

section \<open>Client: the log and the settings of the active profile\<close>

datatype measurementType = BeforeMeal | AfterMeal | Fasting | Bedtime | Other | CGM

datatype insulinType = Bolus | Basal | Correction

datatype mealType = Breakfast | Lunch | Dinner | Snack

datatype intensity = low | medium | high

text \<open>
  The union \<open>LogEntry\<close>, discriminated by \<open>type\<close>: the constructor is the entry type,
  its arguments the fields of that variant (for a blood-sugar entry: \<open>value\<close>,
  \<open>measurementType\<close>, \<open>trendArrow\<close>).
\<close>

datatype entry_data =
    BloodSugar int measurementType "int option"
  | Insulin int insulinType
  | Carbs int mealType "string option" "string option"
  | Activity int string intensity
  | Note string

record logEntry =
  le_id :: string
  le_timestamp :: string
  le_profileId :: string
  le_data :: entry_data

text \<open>
  A reading as the client's \<open>fetchLatestReadings\<close> returns it: \<open>value\<close> is null for a
  payload that carries only sensor information.
\<close>

record reading =
  r_value :: "int option"
  r_timestamp :: string
  r_trendArrow :: "int option"
  r_sensor :: "sensorInfo option"

datatype conn_status = disconnected | connecting | connected | error

record libreLinkUp =
  lu_status :: conn_status
  lu_email :: string
  lu_region :: string
  lu_lastSync :: "string option"
  lu_sensor :: "sensorInfo option"

definition initialSettings_libreLinkUp :: libreLinkUp where
  "initialSettings_libreLinkUp =
     \<lparr>lu_status = disconnected, lu_email = [], lu_region = ''EU'', lu_lastSync = None, lu_sensor = None\<rparr>"

text \<open>A profile, with the part of its settings that the synchronisation reads and writes.\<close>

record profile =
  p_id :: string
  p_libreLinkUp :: libreLinkUp

text \<open>
  The state of \<open>LogDataProvider\<close>: the React state (\<open>profiles\<close>, \<open>activeProfileId\<close>,
  \<open>logEntries\<close>), the two refs, the two keys of \<open>localStorage\<close> the code reads, and the
  number of identifiers generated so far. \<open>settingsRef\<close> holds the \<open>libreLinkUp\<close> part
  of \<open>settingsRef.current\<close>, which is also the \<open>settings\<close> of the last render.
\<close>

record client =
  profiles :: "profile list"
  activeProfileId :: "string option"
  logEntries :: "logEntry list"
  settingsRef :: libreLinkUp
  activeProfileIdRef :: "string option"
  libreSessionId :: "string option"
  libreIsMock :: "string option"
  uuid_count :: nat

text \<open>\<open>settings = activeProfile?.settings ?? initialSettings\<close>, its \<open>libreLinkUp\<close> part.\<close>

definition settings :: "client \<Rightarrow> libreLinkUp" where
  "settings c =
     (case find (\<lambda>p. Some (p_id p) = activeProfileId c) (profiles c) of
        Some p \<Rightarrow> p_libreLinkUp p
      | None \<Rightarrow> initialSettings_libreLinkUp)"

text \<open>
  A render of the provider followed by its effects: the ref of the active profile follows
  the state unless the state is null, and \<open>settingsRef.current\<close> becomes \<open>settings\<close>.
\<close>

definition render :: "client \<Rightarrow> client" where
  "render c =
     c\<lparr>activeProfileIdRef := (if activeProfileId c \<noteq> None then activeProfileId c else activeProfileIdRef c),
       settingsRef := settings c\<rparr>"

text \<open>
  \<open>{...old, ...patch}\<close> on \<open>libreLinkUp\<close> objects. Every patch the code passes spreads a
  whole \<open>libreLinkUp\<close> object, in which only the optional key \<open>sensor\<close> can be missing.
\<close>

definition spread :: "libreLinkUp \<Rightarrow> libreLinkUp \<Rightarrow> libreLinkUp" where
  "spread old patch = patch\<lparr>lu_sensor := nullish (lu_sensor patch) (lu_sensor old)\<rparr>"

definition updateSettings :: "libreLinkUp \<Rightarrow> client \<Rightarrow> client" where
  "updateSettings patch c =
     c\<lparr>profiles := map (\<lambda>p. if Some (p_id p) = activeProfileIdRef c
                              then p\<lparr>p_libreLinkUp := spread (p_libreLinkUp p) patch\<rparr> else p)
                        (profiles c)\<rparr>"

text \<open>
  \<open>xs.sort((a, b) => new Date(b.timestamp).getTime() - new Date(a.timestamp).getTime())\<close>:
  the stable sort by decreasing time. \<open>getTime\<close> is the instant the runtime parses a
  timestamp string to. A string that does not parse gives NaN, the comparator is then
  inconsistent and the order implementation-defined, so such strings are outside the
  model.
\<close>

definition sortDesc :: "(string \<Rightarrow> int) \<Rightarrow> logEntry list \<Rightarrow> logEntry list" where
  "sortDesc getTime xs = sort_key (\<lambda>e. - getTime (le_timestamp e)) xs"

text \<open>
  \<open>addEntry\<close>, its effect on the log. \<open>uuidv4\<close> gives the identifiers in the order they
  are generated and \<open>nowISO\<close> is \<open>new Date().toISOString()\<close>. The notification the
  function may raise afterwards does not touch the state and is left out.
\<close>

definition addEntry ::
  "(string \<Rightarrow> int) \<Rightarrow> (nat \<Rightarrow> string) \<Rightarrow> string \<Rightarrow> entry_data \<times> string option \<Rightarrow> client \<Rightarrow> client" where
  "addEntry getTime uuidv4 nowISO entryData c =
     (case activeProfileId c of
        None \<Rightarrow> c
      | Some pid \<Rightarrow>
          if pid = [] then c
          else
            let newEntry = \<lparr>le_id = uuidv4 (uuid_count c),
                            le_timestamp = or_else (snd entryData) nowISO,
                            le_profileId = pid,
                            le_data = fst entryData\<rparr>
            in c\<lparr>logEntries := sortDesc getTime (logEntries c @ [newEntry]),
                 uuid_count := Suc (uuid_count c)\<rparr>)"

text \<open>
  The body of \<open>readings.forEach\<close> in the updater of \<open>syncLibreData\<close>: the entries to
  append, given the timestamps of the log before the tick, the value of
  \<open>activeProfileIdRef.current\<close> and the number of identifiers already used.
\<close>

fun newEntries :: "(nat \<Rightarrow> string) \<Rightarrow> nat \<Rightarrow> string set \<Rightarrow> string option \<Rightarrow> reading list \<Rightarrow> logEntry list" where
  "newEntries uuidv4 k existingTimestamps pid [] = []"
| "newEntries uuidv4 k existingTimestamps pid (r # rs) =
     (if r_timestamp r \<notin> existingTimestamps \<and> r_value r \<noteq> None then
        (if truthy pid then
           \<lparr>le_id = uuidv4 k, le_timestamp = r_timestamp r, le_profileId = the pid,
            le_data = BloodSugar (the (r_value r)) CGM (r_trendArrow r)\<rparr>
             # newEntries uuidv4 (Suc k) existingTimestamps pid rs
         else newEntries uuidv4 k existingTimestamps pid rs)
      else newEntries uuidv4 k existingTimestamps pid rs)"

text \<open>The updater passed to \<open>setLogEntries\<close> by \<open>syncLibreData\<close>.\<close>

definition syncUpdater ::
  "(string \<Rightarrow> int) \<Rightarrow> (nat \<Rightarrow> string) \<Rightarrow> nat \<Rightarrow> string option \<Rightarrow> reading list \<Rightarrow> logEntry list \<Rightarrow> logEntry list" where
  "syncUpdater getTime uuidv4 k pid readings prevEntries =
     (let existingTimestamps = set (map le_timestamp prevEntries);
          new = newEntries uuidv4 k existingTimestamps pid readings
      in if length new > 0 then sortDesc getTime (prevEntries @ new) else prevEntries)"

text \<open>
  \<open>disconnectLibre\<close>. The module \<open>api/libre\<close> is not part of the sources, so the effect of
  its \<open>disconnectFromLibre\<close> on the stored session marker is the parameter
  \<open>apiDisconnect\<close>; an exception of it is caught and logged.
\<close>

definition disconnectLibre :: "(string option \<Rightarrow> string option) \<Rightarrow> client \<Rightarrow> client" where
  "disconnectLibre apiDisconnect c =
     updateSettings (initialSettings_libreLinkUp\<lparr>lu_status := disconnected\<rparr>)
       (c\<lparr>libreSessionId := apiDisconnect (libreSessionId c)\<rparr>)"

text \<open>
  One tick of the sync loop. \<open>fetched\<close> is the outcome of \<open>fetchLatestReadings\<close> (also
  of the absent module): \<open>Inl\<close> the message of the error it throws, \<open>Inr\<close> the array it
  returns, if any.
\<close>

definition syncLibreData ::
  "(string \<Rightarrow> int) \<Rightarrow> (nat \<Rightarrow> string) \<Rightarrow> (string option \<Rightarrow> string option) \<Rightarrow> string
     \<Rightarrow> string option + reading list option \<Rightarrow> client \<Rightarrow> client" where
  "syncLibreData getTime uuidv4 apiDisconnect nowISO fetched c =
     (let currentSettings = settingsRef c in
      if libreSessionId c = None then c
      else case fetched of
        Inl message \<Rightarrow>
          (case message of
             None \<Rightarrow> c
           | Some m \<Rightarrow> if m \<noteq> [] \<and> str_includes m ''Oturum'' then disconnectLibre apiDisconnect c else c)
      | Inr None \<Rightarrow> c
      | Inr (Some []) \<Rightarrow> c
      | Inr (Some (latestReading # rest)) \<Rightarrow>
          let readings = latestReading # rest;
              new = newEntries uuidv4 (uuid_count c) (set (map le_timestamp (logEntries c)))
                      (activeProfileIdRef c) readings;
              c1 = c\<lparr>logEntries := syncUpdater getTime uuidv4 (uuid_count c) (activeProfileIdRef c)
                                       readings (logEntries c),
                     uuid_count := uuid_count c + length new\<rparr>
          in updateSettings
               (currentSettings\<lparr>lu_lastSync := Some nowISO,
                                 lu_sensor := nullish (r_sensor latestReading) (lu_sensor currentSettings)\<rparr>)
               c1)"







section \<open>Sequences of operations on the log\<close>

text \<open>
  Polling the same reading once per element of \<open>nows\<close> (the times of the ticks), with a
  render of the provider after each tick.
\<close>

fun polls ::
  "(string \<Rightarrow> int) \<Rightarrow> (nat \<Rightarrow> string) \<Rightarrow> (string option \<Rightarrow> string option) \<Rightarrow> reading
     \<Rightarrow> string list \<Rightarrow> client \<Rightarrow> client" where
  "polls getTime uuidv4 apiDisconnect r [] c = c"
| "polls getTime uuidv4 apiDisconnect r (nowISO # nows) c =
     polls getTime uuidv4 apiDisconnect r nows
       (render (syncLibreData getTime uuidv4 apiDisconnect nowISO (Inr (Some [r])) c))"

text \<open>The entries of a profile are sorted by timestamp, descending.\<close>

definition sortedDesc :: "(string \<Rightarrow> int) \<Rightarrow> string \<Rightarrow> logEntry list \<Rightarrow> bool" where
  "sortedDesc getTime pid entries =
     sorted_wrt (\<lambda>a b. getTime (le_timestamp b) \<le> getTime (le_timestamp a))
       (filter (\<lambda>e. le_profileId e = pid) entries)"

text \<open>\<open>switchProfile\<close>, followed by the render it causes.\<close>

definition switchProfile :: "string \<Rightarrow> client \<Rightarrow> client" where
  "switchProfile profileId c = render (c\<lparr>activeProfileId := Some profileId\<rparr>)"

text \<open>
  The operations that insert into the log, and the switch of the active profile between
  them; each carries the current time, and a tick the outcome of its fetch.
\<close>

datatype log_op =
    AddEntry string "entry_data \<times> string option"
  | SyncTick string "string option + reading list option"
  | SwitchProfile string

fun run_op ::
  "(string \<Rightarrow> int) \<Rightarrow> (nat \<Rightarrow> string) \<Rightarrow> (string option \<Rightarrow> string option) \<Rightarrow> log_op \<Rightarrow> client \<Rightarrow> client" where
  "run_op getTime uuidv4 apiDisconnect (AddEntry nowISO entryData) c =
     render (addEntry getTime uuidv4 nowISO entryData c)"
| "run_op getTime uuidv4 apiDisconnect (SyncTick nowISO fetched) c =
     render (syncLibreData getTime uuidv4 apiDisconnect nowISO fetched c)"
| "run_op getTime uuidv4 apiDisconnect (SwitchProfile profileId) c = switchProfile profileId c"

fun run_ops ::
  "(string \<Rightarrow> int) \<Rightarrow> (nat \<Rightarrow> string) \<Rightarrow> (string option \<Rightarrow> string option) \<Rightarrow> log_op list \<Rightarrow> client \<Rightarrow> client" where
  "run_ops getTime uuidv4 apiDisconnect [] c = c"
| "run_ops getTime uuidv4 apiDisconnect (x # ops) c =
     run_ops getTime uuidv4 apiDisconnect ops (run_op getTime uuidv4 apiDisconnect x c)"

section \<open>Concrete inputs\<close>

text \<open>Vendors, payloads and states at which the theorems below are evaluated.\<close>

definition timeoutError :: axios_error where
  "timeoutError = \<lparr>err_code = ''ECONNABORTED'', err_message = ''timeout of 60000ms exceeded'',
     err_status = None, err_response_message = None\<rparr>"

definition always_timeout :: "nat \<Rightarrow> axios_error + unit" where
  "always_timeout n = Inl timeoutError"

definition notFoundError :: axios_error where
  "notFoundError = \<lparr>err_code = ''ERR_BAD_REQUEST'', err_message = ''Request failed with status code 404'',
     err_status = Some 404, err_response_message = None\<rparr>"

definition always_404 :: "nat \<Rightarrow> axios_error + unit" where
  "always_404 n = Inl notFoundError"

definition refusedError :: axios_error where
  "refusedError = \<lparr>err_code = ''ECONNREFUSED'', err_message = ''connect ECONNREFUSED 10.0.0.1:443'',
     err_status = None, err_response_message = None\<rparr>"

definition always_refused :: "nat \<Rightarrow> axios_error + unit" where
  "always_refused n = Inl refusedError"

definition login_timeout :: "nat \<Rightarrow> axios_error + login_payload option" where
  "login_timeout n = Inl timeoutError"

definition future_sensor :: vendor_sensor where
  "future_sensor = \<lparr>vs_a = Some 1700086400, vs_sn = ''SN1'', vs_pt = Some 2\<rparr>"

definition worn_sensor :: vendor_sensor where
  "worn_sensor = \<lparr>vs_a = Some 1699136000, vs_sn = ''SN1'', vs_pt = Some 2\<rparr>"

definition example_session :: session where
  "example_session = \<lparr>s_token = ''tok'', s_clientVersion = ''4.16.0'', s_userId = ''u1'',
     s_accountId = ''hash-u1'', s_region = ''EU'', s_baseURL = ''https://api-eu.libreview.io''\<rparr>"

definition example_server :: server where
  "example_server = \<lparr>sessions = [''sid-1'' \<mapsto> example_session], sessionsFile = None\<rparr>"

definition conn_no_reading :: connection where
  "conn_no_reading = \<lparr>c_pending = Some False, c_patientId = ''patient-1'',
     c_connection_glucoseMeasurement = None, c_glucoseMeasurement = None, c_sensor = None\<rparr>"

definition cons_ok :: "nat \<Rightarrow> axios_error + cons_response" where
  "cons_ok n = Inr \<lparr>cons_status = 200, cons_data = Some [conn_no_reading]\<rparr>"

definition cons_timeout :: "nat \<Rightarrow> axios_error + cons_response" where
  "cons_timeout n = Inl timeoutError"

definition graph_401 :: "nat \<Rightarrow> axios_error + graph_response" where
  "graph_401 n = Inr \<lparr>hist_status = 401, hist_graphData = None\<rparr>"

definition login_ok :: "nat \<Rightarrow> axios_error + login_payload option" where
  "login_ok n = Inr (Some \<lparr>lp_status = Some 0, lp_token = Some ''tok'', lp_userId = Some ''u1''\<rparr>)"

definition example_login :: connect_body where
  "example_login = \<lparr>cb_email = Some ''a@b.c'', cb_password = Some ''pw'', cb_region = None,
     cb_clientVersion = None\<rparr>"

definition example_hash :: "string \<Rightarrow> string" where
  "example_hash u = ''hash-'' @ u"

definition invalid_glucose :: glucose where
  "invalid_glucose = \<lparr>gm_Value = Some 110, gm_value = None, gm_Timestamp = Some InvalidDate,
     gm_MeasurementDate = None, gm_TrendArrow = Some 3, gm_trendArrow = None\<rparr>"

definition conn_invalid_date :: connection where
  "conn_invalid_date = \<lparr>c_pending = Some False, c_patientId = ''patient-1'',
     c_connection_glucoseMeasurement = Some invalid_glucose, c_glucoseMeasurement = None,
     c_sensor = None\<rparr>"

definition cons_invalid_date :: "nat \<Rightarrow> axios_error + cons_response" where
  "cons_invalid_date n = Inr \<lparr>cons_status = 200, cons_data = Some [conn_invalid_date]\<rparr>"

definition cons_empty :: "nat \<Rightarrow> axios_error + cons_response" where
  "cons_empty n = Inr \<lparr>cons_status = 200, cons_data = Some []\<rparr>"

definition invalid_item :: graph_item where
  "invalid_item = \<lparr>gi_Value = Some 120, gi_value = None, gi_Timestamp = Some InvalidDate,
     gi_MeasurementDate = None\<rparr>"

definition graph_invalid_date :: "nat \<Rightarrow> axios_error + graph_response" where
  "graph_invalid_date n = Inr \<lparr>hist_status = 200, hist_graphData = Some [invalid_item]\<rparr>"

definition graph_timeout :: "nat \<Rightarrow> axios_error + graph_response" where
  "graph_timeout n = Inl timeoutError"

text \<open>
  A stand-in for the runtime's date parser on the timestamps used below, a generator of
  identifiers, and a \<open>disconnectFromLibre\<close> that clears the session marker.
\<close>

definition exampleTime :: "string \<Rightarrow> int" where
  "exampleTime ts =
     (if ts = ''2024-01-01T09:00:00.000Z'' then 1704099600000
      else if ts = ''2024-01-01T10:00:00.000Z'' then 1704103200000
      else if ts = ''2024-01-01T10:05:00.000Z'' then 1704103500000
      else 0)"

definition example_uuid :: "nat \<Rightarrow> string" where
  "example_uuid n = ''id-'' @ replicate n (CHR ''i'')"

definition example_apiDisconnect :: "string option \<Rightarrow> string option" where
  "example_apiDisconnect marker = None"

definition example_client :: client where
  "example_client =
     \<lparr>profiles = [\<lparr>p_id = ''p1'', p_libreLinkUp = initialSettings_libreLinkUp\<rparr>],
      activeProfileId = Some ''p1'', logEntries = [], settingsRef = initialSettings_libreLinkUp,
      activeProfileIdRef = Some ''p1'', libreSessionId = Some ''sid-1'', libreIsMock = None,
      uuid_count = 0\<rparr>"

definition reading_110 :: reading where
  "reading_110 = \<lparr>r_value = Some 110, r_timestamp = ''2024-01-01T10:00:00.000Z'',
     r_trendArrow = Some 3, r_sensor = None\<rparr>"

definition reading_null :: reading where
  "reading_null = \<lparr>r_value = None, r_timestamp = ''2024-01-01T10:05:00.000Z'',
     r_trendArrow = None, r_sensor = None\<rparr>"

definition entry_110 :: logEntry where
  "entry_110 = \<lparr>le_id = ''id-'', le_timestamp = ''2024-01-01T10:00:00.000Z'', le_profileId = ''p1'',
     le_data = BloodSugar 110 CGM (Some 3)\<rparr>"

definition manual_entry :: "entry_data \<times> string option" where
  "manual_entry = (BloodSugar 95 Fasting None, Some ''2024-01-01T09:00:00.000Z'')"

definition later_entry :: "entry_data \<times> string option" where
  "later_entry = (Insulin 4 Bolus, None)"

definition example_ops :: "log_op list" where
  "example_ops =
     [AddEntry ''2024-01-01T09:30:00.000Z'' manual_entry,
      SyncTick ''2024-01-01T10:00:30.000Z'' (Inr (Some [reading_110])),
      AddEntry ''2024-01-01T10:05:00.000Z'' later_entry]"




section \<open>The retry wrapper\<close>

declare axiosWithRetry.simps [simp del]

lemma isTimeout_timeoutError: "isTimeout timeoutError"
  by (simp add: isTimeout_def timeoutError_def)

lemma not_isTimeout_404: "\<not> isTimeout notFoundError"
  by (simp add: isTimeout_def notFoundError_def)

lemma retry_step:
  "axios 0 = Inl e \<Longrightarrow> isTimeout e \<or> isServerErr e \<Longrightarrow> retries > 0 \<Longrightarrow>
   axiosWithRetry axios retries =
     (fst (axiosWithRetry (\<lambda>n. axios (Suc n)) (retries - 1)),
      Attempt # Delay ((4 - int retries) * 1000) # snd (axiosWithRetry (\<lambda>n. axios (Suc n)) (retries - 1)))"
  by (subst axiosWithRetry.simps) (simp add: Let_def split: prod.splits)

lemma retry_stop:
  "axios 0 = Inl e \<Longrightarrow> \<not> (retries > 0 \<and> (isTimeout e \<or> isServerErr e)) \<Longrightarrow>
   axiosWithRetry axios retries = (Inl e, [Attempt])"
  by (subst axiosWithRetry.simps) auto

lemma retry_ok:
  "axios 0 = Inr r \<Longrightarrow> axiosWithRetry axios retries = (Inr r, [Attempt])"
  by (subst axiosWithRetry.simps) simp

lemma retry_const_error: "fst (axiosWithRetry (\<lambda>n. Inl e) retries) = Inl e"
proof (induction retries)
  case 0
  show ?case by (simp add: retry_stop[of _ e])
next
  case (Suc retries)
  show ?case
  proof (cases "isTimeout e \<or> isServerErr e")
    case True
    then show ?thesis
      using Suc by (subst retry_step[where e = e]) simp_all
  next
    case False
    then show ?thesis by (simp add: retry_stop[of _ e])
  qed
qed

lemma retry_all_timeouts:
  assumes all: "\<forall>n. \<exists>e. axios n = Inl e \<and> isTimeout e"
  shows "\<exists>e. axiosWithRetry axios 3 =
              (Inl e, [Attempt, Delay 1000, Attempt, Delay 2000, Attempt, Delay 3000, Attempt])
            \<and> axios 3 = Inl e \<and> isTimeout e"
proof -
  from all obtain e0 e1 e2 e3 where
    e: "axios 0 = Inl e0" "isTimeout e0" "axios 1 = Inl e1" "isTimeout e1"
       "axios 2 = Inl e2" "isTimeout e2" "axios 3 = Inl e3" "isTimeout e3"
    by metis
  have s3: "axiosWithRetry (\<lambda>n. axios (Suc (Suc (Suc n)))) 0 = (Inl e3, [Attempt])"
    using e by (intro retry_stop) (simp_all add: numeral_3_eq_3)
  have s2: "axiosWithRetry (\<lambda>n. axios (Suc (Suc n))) 1 = (Inl e3, [Attempt, Delay 3000, Attempt])"
    using e s3 by (subst retry_step[where e = e2]) (simp_all add: numeral_2_eq_2)
  have s1: "axiosWithRetry (\<lambda>n. axios (Suc n)) 2 =
              (Inl e3, [Attempt, Delay 2000, Attempt, Delay 3000, Attempt])"
    using e s2 by (subst retry_step[where e = e1]) simp_all
  have s0: "axiosWithRetry axios 3 =
              (Inl e3, [Attempt, Delay 1000, Attempt, Delay 2000, Attempt, Delay 3000, Attempt])"
    using e s1 by (subst retry_step[where e = e0]) simp_all
  with e show ?thesis by blast
qed

text \<open>
  C2, as stated, fails: a call that times out on every attempt is attempted four times,
  the first call and three retries, not three times.
\<close>

theorem C2_counterexample:
  "snd (axiosWithRetry always_timeout 3) =
     [Attempt, Delay 1000, Attempt, Delay 2000, Attempt, Delay 3000, Attempt]
   \<and> attempts (snd (axiosWithRetry always_timeout 3)) \<noteq> 3"
  by (simp add: always_timeout_def isTimeout_timeoutError retry_step retry_stop attempts_def numeral_3_eq_3)

text \<open>
  C2, amended: when every attempt fails with a timeout, the wrapper called with its default
  of three retries makes exactly four attempts, the first at once, the second after 1 s,
  the third after 2 s and the fourth after one more wait, and then fails with the timeout
  error of the last attempt, which the login route answers with 504, leaving the session
  table as it was. A failure that is neither a timeout nor a 5xx, a 4xx in particular,
  fails at once after a single attempt.
\<close>

theorem retry_always_timeout:
  "((\<forall>n. \<exists>e. axios n = Inl e \<and> isTimeout e) \<longrightarrow>
      (\<exists>e d. axiosWithRetry axios 3 =
                (Inl e, [Attempt, Delay 1000, Attempt, Delay 2000, Attempt, Delay d, Attempt])
             \<and> axios 3 = Inl e \<and> isTimeout e
             \<and> attempts (snd (axiosWithRetry axios 3)) = 4))
   \<and> (\<forall>e. axios 0 = Inl e \<and> \<not> isTimeout e \<and> \<not> isServerErr e \<longrightarrow>
        axiosWithRetry axios 3 = (Inl e, [Attempt]))
   \<and> (\<forall>e st. axios 0 = Inl e \<and> \<not> isTimeout e \<and> err_status e = Some st \<and> 400 \<le> st \<and> st < 500 \<longrightarrow>
        axiosWithRetry axios 3 = (Inl e, [Attempt]))
   \<and> (truthy (cb_email reqbody) \<and> truthy (cb_password reqbody)
        \<and> (\<forall>n. \<exists>e. vendor n = Inl e \<and> isTimeout e) \<longrightarrow>
        http_status (fst (connect_route sha256 uuidv4 w vendor reqbody s)) = 504
        \<and> snd (connect_route sha256 uuidv4 w vendor reqbody s) = s)"
proof (intro conjI impI allI)
  assume all: "\<forall>n. \<exists>e. axios n = Inl e \<and> isTimeout e"
  from retry_all_timeouts[OF all] obtain e where
    "axiosWithRetry axios 3 =
       (Inl e, [Attempt, Delay 1000, Attempt, Delay 2000, Attempt, Delay 3000, Attempt])"
    "axios 3 = Inl e" "isTimeout e"
    by blast
  then show "\<exists>e d. axiosWithRetry axios 3 =
                (Inl e, [Attempt, Delay 1000, Attempt, Delay 2000, Attempt, Delay d, Attempt])
             \<and> axios 3 = Inl e \<and> isTimeout e
             \<and> attempts (snd (axiosWithRetry axios 3)) = 4"
    by (simp add: attempts_def)
next
  fix e
  assume "axios 0 = Inl e \<and> \<not> isTimeout e \<and> \<not> isServerErr e"
  then show "axiosWithRetry axios 3 = (Inl e, [Attempt])"
    by (intro retry_stop) simp_all
next
  fix e st
  assume a: "axios 0 = Inl e \<and> \<not> isTimeout e \<and> err_status e = Some st \<and> 400 \<le> st \<and> st < 500"
  then have "\<not> isServerErr e" by (simp add: isServerErr_def)
  with a show "axiosWithRetry axios 3 = (Inl e, [Attempt])"
    by (intro retry_stop) simp_all
next
  assume a: "truthy (cb_email reqbody) \<and> truthy (cb_password reqbody)
        \<and> (\<forall>n. \<exists>e. vendor n = Inl e \<and> isTimeout e)"
  then have all: "\<forall>n. \<exists>e. vendor n = Inl e \<and> isTimeout e" by simp
  from retry_all_timeouts[OF all] obtain e where
    e: "fst (axiosWithRetry vendor 3) = Inl e" "isTimeout e"
    by force
  from e(2) have c: "connect_catch e = status_json 504 (ErrorBody ''Libre sunucusuna ulasilamadi (Zaman Asimi).'')"
    by (simp add: connect_catch_def isTimeout_def)
  have r: "connect_route sha256 uuidv4 w vendor reqbody s = (connect_catch e, s)"
    using a e(1) by (simp add: connect_route_def Let_def)
  show "http_status (fst (connect_route sha256 uuidv4 w vendor reqbody s)) = 504"
    unfolding r c by (simp add: status_json_def)
  show "snd (connect_route sha256 uuidv4 w vendor reqbody s) = s"
    unfolding r by simp
qed

theorem retry_always_timeout_witness:
  "(\<exists>d. axiosWithRetry always_timeout 3 =
      (Inl timeoutError, [Attempt, Delay 1000, Attempt, Delay 2000, Attempt, Delay d, Attempt]))
   \<and> axiosWithRetry always_404 3 = (Inl notFoundError, [Attempt])
   \<and> axiosWithRetry always_refused 3 = (Inl refusedError, [Attempt])
   \<and> http_status (fst (connect_route example_hash ''sid-2'' WriteOk login_timeout example_login example_server)) = 504"
proof -
  have h: "\<forall>n. \<exists>e. always_timeout n = Inl e \<and> isTimeout e"
    by (simp add: always_timeout_def isTimeout_timeoutError)
  have "err_status notFoundError = Some 404" by (simp add: notFoundError_def)
  then have k: "always_404 0 = Inl notFoundError \<and> \<not> isTimeout notFoundError
           \<and> err_status notFoundError = Some 404 \<and> (400::nat) \<le> 404 \<and> (404::nat) < 500"
    by (simp add: always_404_def not_isTimeout_404)
  have "\<not> isTimeout refusedError" "\<not> isServerErr refusedError"
    by (simp_all add: isTimeout_def isServerErr_def refusedError_def)
  then have r: "always_refused 0 = Inl refusedError \<and> \<not> isTimeout refusedError \<and> \<not> isServerErr refusedError"
    by (simp add: always_refused_def)
  have l: "truthy (cb_email example_login) \<and> truthy (cb_password example_login)
        \<and> (\<forall>n. \<exists>e. login_timeout n = Inl e \<and> isTimeout e)"
    by (simp add: truthy_def example_login_def login_timeout_def isTimeout_timeoutError)
  from retry_always_timeout[of always_timeout] h
  have "\<exists>e d. axiosWithRetry always_timeout 3 =
                (Inl e, [Attempt, Delay 1000, Attempt, Delay 2000, Attempt, Delay d, Attempt])
             \<and> always_timeout 3 = Inl e" by blast
  then have a: "\<exists>d. axiosWithRetry always_timeout 3 =
      (Inl timeoutError, [Attempt, Delay 1000, Attempt, Delay 2000, Attempt, Delay d, Attempt])"
    by (auto simp: always_timeout_def)
  from retry_always_timeout[of always_404] k
  have b: "axiosWithRetry always_404 3 = (Inl notFoundError, [Attempt])" by blast
  from retry_always_timeout[of always_refused] r
  have c: "axiosWithRetry always_refused 3 = (Inl refusedError, [Attempt])" by blast
  from retry_always_timeout[of _ example_login login_timeout example_hash "''sid-2''" WriteOk example_server] l
  have d: "http_status (fst (connect_route example_hash ''sid-2'' WriteOk login_timeout example_login example_server)) = 504"
    by blast
  from a b c d show ?thesis by simp
qed

section \<open>Sensor wear-life\<close>

lemma ceil_div_ceiling: "ceil_div n d = \<lceil>real_of_int n / real_of_int d\<rceil>"
proof -
  have "\<lfloor>real_of_int (- n) / real_of_int d\<rfloor> = (- n) div d"
    by (rule floor_divide_of_int_eq)
  then show ?thesis
    by (simp add: ceil_div_def ceiling_def)
qed

lemma ceil_div_le: "0 < d \<Longrightarrow> n \<le> k * d \<Longrightarrow> ceil_div n d \<le> k"
proof -
  assume d: "0 < d" and n: "n \<le> k * d"
  have "(- k) * d \<le> - n" using n by simp
  then have "((- k) * d) div d \<le> (- n) div d" using d by (rule zdiv_mono1)
  moreover have "((- k) * d) div d = - k" using d by (intro nonzero_mult_div_cancel_right) simp
  ultimately have "- k \<le> (- n) div d" by simp
  then show ?thesis by (simp add: ceil_div_def)
qed

lemma ceil_div_exact: "d \<noteq> 0 \<Longrightarrow> ceil_div (k * d) d = k"
proof -
  assume d: "d \<noteq> 0"
  have "((- k) * d) div d = - k" using d by (intro nonzero_mult_div_cancel_right)
  then show ?thesis by (simp add: ceil_div_def)
qed

text \<open>
  C5, as stated, fails: a sensor whose activation epoch lies one day after the evaluation
  time gets \<open>daysLeft = 15\<close>.
\<close>

theorem C5_counterexample:
  "sensor_info 1700000000000 future_sensor =
     Inr \<lparr>si_serial = ''SN1'', si_startDate = 1700086400000, si_endDate = 1701296000000,
          si_daysLeft = 15, si_state = Aktif\<rparr>
   \<and> \<not> si_daysLeft (projr (sensor_info 1700000000000 future_sensor)) \<le> 14"
  by (simp add: sensor_info_def future_sensor_def newDate_def sensor_endDate_def toISOString_def
      bind_exn_def calc_daysLeft_def ceil_div_def day_ms_def stateStr_def Let_def)

text \<open>
  C5, amended: for every activation epoch \<open>t0\<close> other than 0 whose start and end dates are
  valid dates, and every evaluation time \<open>now\<close> at or after the epoch, the route computes the sensor information
  with \<open>endDate = startDate + 14 days\<close> and
  \<open>daysLeft = max(0, ceil((endDate - now) / 1 day))\<close>; \<open>daysLeft\<close> is never negative, it is
  at most 14 whenever the activation is not later than \<open>now\<close>, and a sensor activated 10
  days before \<open>now\<close> has \<open>daysLeft = 4\<close>.
\<close>

theorem sensor_wear_life:
  assumes "vs_a sensor = Some t0" and "t0 \<noteq> 0"
    and "\<bar>t0 * 1000\<bar> \<le> 8640000000000000" and "\<bar>t0 * 1000 + 14 * day_ms\<bar> \<le> 8640000000000000"
    and "0 \<le> now"
  shows "\<exists>si. sensor_info now sensor = Inr si
           \<and> si_startDate si = t0 * 1000
           \<and> si_endDate si = si_startDate si + 14 * day_ms
           \<and> si_daysLeft si = max 0 \<lceil>real_of_int (si_endDate si - now) / real_of_int day_ms\<rceil>
           \<and> 0 \<le> si_daysLeft si
           \<and> (t0 * 1000 \<le> now \<longrightarrow> si_daysLeft si \<le> 14)
           \<and> (now = t0 * 1000 + 10 * day_ms \<longrightarrow> si_daysLeft si = 4)"
proof -
  let ?e = "t0 * 1000 + 14 * day_ms"
  let ?si = "\<lparr>si_serial = vs_sn sensor, si_startDate = t0 * 1000, si_endDate = ?e,
              si_daysLeft = calc_daysLeft ?e now, si_state = stateStr (vs_pt sensor)\<rparr>"
  have d14: "14 * day_ms = 1209600000" by (simp add: day_ms_def)
  have r: "sensor_info now sensor = Inr ?si"
    using assms(1-4)
    by (simp add: sensor_info_def newDate_def sensor_endDate_def toISOString_def bind_exn_def
        Let_def d14)
  have c: "calc_daysLeft ?e now = max 0 \<lceil>real_of_int (?e - now) / real_of_int day_ms\<rceil>"
    by (simp add: calc_daysLeft_def ceil_div_ceiling)
  have pos: "0 < day_ms" by (simp add: day_ms_def)
  have le: "t0 * 1000 \<le> now \<longrightarrow> calc_daysLeft ?e now \<le> 14"
  proof
    assume "t0 * 1000 \<le> now"
    then have "?e - now \<le> 14 * day_ms" by simp
    then have "ceil_div (?e - now) day_ms \<le> 14" using pos by (rule ceil_div_le[rotated])
    then show "calc_daysLeft ?e now \<le> 14" by (simp add: calc_daysLeft_def)
  qed
  have four: "now = t0 * 1000 + 10 * day_ms \<longrightarrow> calc_daysLeft ?e now = 4"
  proof
    assume n: "now = t0 * 1000 + 10 * day_ms"
    have "?e - now = 4 * day_ms" using n by simp
    moreover have "ceil_div (4 * day_ms) day_ms = 4" using pos ceil_div_exact[of day_ms 4] by simp
    ultimately have "ceil_div (?e - now) day_ms = 4" by (simp only:)
    then show "calc_daysLeft ?e now = 4" by (simp add: calc_daysLeft_def)
  qed
  show ?thesis
    using r c le four by (intro exI[of _ ?si]) (simp add: calc_daysLeft_def)
qed

theorem sensor_wear_life_witness:
  "sensor_info 1700000000000 worn_sensor =
     Inr \<lparr>si_serial = ''SN1'', si_startDate = 1699136000000, si_endDate = 1700345600000,
          si_daysLeft = 4, si_state = Aktif\<rparr>"
proof -
  have a: "vs_a worn_sensor = Some 1699136000" "(1699136000::int) \<noteq> 0"
    "\<bar>1699136000 * 1000\<bar> \<le> (8640000000000000::int)"
    "\<bar>1699136000 * 1000 + 14 * day_ms\<bar> \<le> 8640000000000000"
    by (simp_all add: worn_sensor_def day_ms_def)
  have n: "(1700000000000::int) = 1699136000 * 1000 + 10 * day_ms"
    by (simp add: day_ms_def)
  have p: "(0::int) \<le> 1700000000000" by simp
  from sensor_wear_life[OF a p] n
  obtain si where si: "sensor_info 1700000000000 worn_sensor = Inr si" "si_daysLeft si = 4"
    by blast
  have "sensor_info 1700000000000 worn_sensor =
     Inr \<lparr>si_serial = ''SN1'', si_startDate = 1699136000000, si_endDate = 1700345600000,
          si_daysLeft = calc_daysLeft 1700345600000 1700000000000, si_state = Aktif\<rparr>"
    by (simp add: sensor_info_def worn_sensor_def newDate_def sensor_endDate_def toISOString_def
      bind_exn_def stateStr_def Let_def)
  with si show ?thesis by auto
qed

section \<open>The session table\<close>

lemma saveSessions_sessions: "sessions (saveSessions w s) = sessions s"
  by (simp add: saveSessions_def split: write_outcome.splits)

lemma disconnect_response: "fst (disconnect_route w sessionId s) = json SuccessBody"
  by (simp add: disconnect_route_def Let_def)

lemma disconnect_sessions:
  "sessions (snd (disconnect_route w sessionId s)) =
     (case sessionId of None \<Rightarrow> sessions s
      | Some sid \<Rightarrow> if sid \<noteq> [] then (sessions s)(sid := None) else sessions s)"
  by (simp add: disconnect_route_def Let_def saveSessions_sessions split: option.splits)

text \<open>
  C7: the disconnect route always answers \<open>{success: true}\<close>; on a table that holds no
  record under the empty identifier it leaves the given session absent, it changes nothing
  when the session was absent, it touches no other session, and a second disconnect
  leaves the table as the first one left it.
\<close>

theorem disconnect_idempotent:
  "fst (disconnect_route w sessionId s) = json SuccessBody
   \<and> (sessions s [] = None \<longrightarrow>
        (\<forall>sid. sessionId = Some sid \<longrightarrow> sessions (snd (disconnect_route w sessionId s)) sid = None))
   \<and> (\<forall>sid. sessionId = Some sid \<and> sessions s sid = None \<longrightarrow>
        sessions (snd (disconnect_route w sessionId s)) = sessions s)
   \<and> (\<forall>k. Some k \<noteq> sessionId \<longrightarrow> sessions (snd (disconnect_route w sessionId s)) k = sessions s k)
   \<and> sessions (snd (disconnect_route w' sessionId (snd (disconnect_route w sessionId s))))
       = sessions (snd (disconnect_route w sessionId s))
   \<and> disconnect_route WriteOk sessionId (snd (disconnect_route WriteOk sessionId s))
       = disconnect_route WriteOk sessionId s"
proof (intro conjI)
  show "fst (disconnect_route w sessionId s) = json SuccessBody"
    by (rule disconnect_response)
  show "sessions s [] = None \<longrightarrow>
        (\<forall>sid. sessionId = Some sid \<longrightarrow> sessions (snd (disconnect_route w sessionId s)) sid = None)"
    by (auto simp: disconnect_sessions)
  show "\<forall>sid. sessionId = Some sid \<and> sessions s sid = None \<longrightarrow>
        sessions (snd (disconnect_route w sessionId s)) = sessions s"
    by (auto simp: disconnect_sessions fun_upd_idem)
  show "\<forall>k. Some k \<noteq> sessionId \<longrightarrow> sessions (snd (disconnect_route w sessionId s)) k = sessions s k"
    by (auto simp: disconnect_sessions split: option.splits)
  show "sessions (snd (disconnect_route w' sessionId (snd (disconnect_route w sessionId s))))
       = sessions (snd (disconnect_route w sessionId s))"
    by (simp add: disconnect_sessions split: option.splits)
  show "disconnect_route WriteOk sessionId (snd (disconnect_route WriteOk sessionId s))
       = disconnect_route WriteOk sessionId s"
    by (simp add: disconnect_route_def Let_def saveSessions_def split: option.splits)
qed

theorem disconnect_idempotent_witness:
  "sessions example_server [] = None
   \<and> sessions example_server ''sid-1'' = Some example_session
   \<and> sessions (snd (disconnect_route WriteOk (Some ''sid-1'') example_server)) ''sid-1'' = None
   \<and> sessions example_server ''sid-2'' = None
   \<and> sessions (snd (disconnect_route WriteOk (Some ''sid-2'') example_server)) = sessions example_server
   \<and> sessions (snd (disconnect_route WriteOk (Some ''sid-2'') example_server)) ''sid-1'' = Some example_session"
proof -
  have e: "sessions example_server [] = None" "sessions example_server ''sid-1'' = Some example_session"
    "sessions example_server ''sid-2'' = None"
    by (simp_all add: example_server_def)
  have n: "Some ''sid-1'' \<noteq> Some ''sid-2''" by simp
  from disconnect_idempotent[of WriteOk "Some ''sid-1''" example_server] e
  have a: "sessions (snd (disconnect_route WriteOk (Some ''sid-1'') example_server)) ''sid-1'' = None"
    by blast
  from disconnect_idempotent[of WriteOk "Some ''sid-2''" example_server] e
  have b: "sessions (snd (disconnect_route WriteOk (Some ''sid-2'') example_server)) = sessions example_server"
    by blast
  note t = disconnect_idempotent[of WriteOk "Some ''sid-2''" example_server,
      THEN conjunct2, THEN conjunct2, THEN conjunct2, THEN conjunct1, rule_format, of "''sid-1''"]
  have c: "sessions (snd (disconnect_route WriteOk (Some ''sid-2'') example_server)) ''sid-1''
           = sessions example_server ''sid-1''"
    by (rule t) simp
  show ?thesis using e a b c by simp
qed

lemma connect_success:
  assumes "truthy (cb_email reqbody)" "truthy (cb_password reqbody)"
    and "fst (axiosWithRetry vendor 3) = Inr (Some d)"
    and "truthy (lp_token d)" "truthy (lp_userId d)"
  shows "connect_route sha256 uuidv4 w vendor reqbody s =
     (json (ConnectBody uuidv4),
      saveSessions w (s\<lparr>sessions := (sessions s)(uuidv4 \<mapsto>
         \<lparr>s_token = or_else (lp_token d) [], s_clientVersion = or_else (cb_clientVersion reqbody) ''4.16.0'',
          s_userId = or_else (lp_userId d) [], s_accountId = sha256 (or_else (lp_userId d) []),
          s_region = or_else (cb_region reqbody) ''EU'', s_baseURL = getBaseUrl (cb_region reqbody)\<rparr>)\<rparr>))"
  using assms by (simp add: connect_route_def Let_def)

lemma connect_write_independent:
  "fst (connect_route sha256 uuidv4 w vendor reqbody s) = fst (connect_route sha256 uuidv4 w' vendor reqbody s)
   \<and> sessions (snd (connect_route sha256 uuidv4 w vendor reqbody s))
     = sessions (snd (connect_route sha256 uuidv4 w' vendor reqbody s))"
  by (simp add: connect_route_def Let_def saveSessions_sessions split: sum.splits option.splits)

text \<open>
  C8: a failing write to disk changes neither the response nor the in-memory table of the
  login route and of the disconnect route: a successful login still stores its session
  and answers with the session identifier, and a disconnect still removes the session and
  answers \<open>{success: true}\<close>.
\<close>

theorem persistence_best_effort:
  "fst (connect_route sha256 uuidv4 (WriteFails left) vendor reqbody s)
     = fst (connect_route sha256 uuidv4 WriteOk vendor reqbody s)
   \<and> sessions (snd (connect_route sha256 uuidv4 (WriteFails left) vendor reqbody s))
     = sessions (snd (connect_route sha256 uuidv4 WriteOk vendor reqbody s))
   \<and> (truthy (cb_email reqbody) \<and> truthy (cb_password reqbody)
        \<and> fst (axiosWithRetry vendor 3) = Inr (Some d) \<and> truthy (lp_token d) \<and> truthy (lp_userId d) \<longrightarrow>
        fst (connect_route sha256 uuidv4 (WriteFails left) vendor reqbody s) = json (ConnectBody uuidv4)
        \<and> sessions (snd (connect_route sha256 uuidv4 (WriteFails left) vendor reqbody s)) uuidv4 \<noteq> None)
   \<and> fst (disconnect_route (WriteFails left) sessionId s) = json SuccessBody
   \<and> sessions (snd (disconnect_route (WriteFails left) sessionId s))
     = sessions (snd (disconnect_route WriteOk sessionId s))
   \<and> (\<forall>sid. sessionId = Some sid \<and> sid \<noteq> [] \<longrightarrow>
        sessions (snd (disconnect_route (WriteFails left) sessionId s)) sid = None)"
proof (intro conjI impI allI)
  show "fst (connect_route sha256 uuidv4 (WriteFails left) vendor reqbody s)
     = fst (connect_route sha256 uuidv4 WriteOk vendor reqbody s)"
    using connect_write_independent by blast
  show "sessions (snd (connect_route sha256 uuidv4 (WriteFails left) vendor reqbody s))
     = sessions (snd (connect_route sha256 uuidv4 WriteOk vendor reqbody s))"
    using connect_write_independent by blast
  show "fst (disconnect_route (WriteFails left) sessionId s) = json SuccessBody"
    by (rule disconnect_response)
  show "sessions (snd (disconnect_route (WriteFails left) sessionId s))
     = sessions (snd (disconnect_route WriteOk sessionId s))"
    by (simp add: disconnect_sessions)
next
  assume a: "truthy (cb_email reqbody) \<and> truthy (cb_password reqbody)
        \<and> fst (axiosWithRetry vendor 3) = Inr (Some d) \<and> truthy (lp_token d) \<and> truthy (lp_userId d)"
  then show "fst (connect_route sha256 uuidv4 (WriteFails left) vendor reqbody s) = json (ConnectBody uuidv4)"
    by (simp add: connect_success)
  from a show "sessions (snd (connect_route sha256 uuidv4 (WriteFails left) vendor reqbody s)) uuidv4 \<noteq> None"
    by (simp add: connect_success saveSessions_sessions)
next
  fix sid assume "sessionId = Some sid \<and> sid \<noteq> []"
  then show "sessions (snd (disconnect_route (WriteFails left) sessionId s)) sid = None"
    by (simp add: disconnect_sessions)
qed

theorem persistence_best_effort_witness:
  "fst (connect_route example_hash ''sid-2'' (WriteFails None) login_ok example_login example_server)
     = json (ConnectBody ''sid-2'')
   \<and> sessions (snd (connect_route example_hash ''sid-2'' (WriteFails None) login_ok example_login example_server))
       ''sid-2'' \<noteq> None
   \<and> sessionsFile (snd (connect_route example_hash ''sid-2'' (WriteFails None) login_ok example_login example_server))
       = None
   \<and> sessions (snd (disconnect_route (WriteFails None) (Some ''sid-1'') example_server)) ''sid-1'' = None"
proof -
  have l: "fst (axiosWithRetry login_ok 3)
             = Inr (Some \<lparr>lp_status = Some 0, lp_token = Some ''tok'', lp_userId = Some ''u1''\<rparr>)"
    by (simp add: retry_ok login_ok_def)
  have h: "truthy (cb_email example_login) \<and> truthy (cb_password example_login)
     \<and> fst (axiosWithRetry login_ok 3)
         = Inr (Some \<lparr>lp_status = Some 0, lp_token = Some ''tok'', lp_userId = Some ''u1''\<rparr>)
     \<and> truthy (lp_token \<lparr>lp_status = Some 0, lp_token = Some ''tok'', lp_userId = Some ''u1''\<rparr>)
     \<and> truthy (lp_userId \<lparr>lp_status = Some 0, lp_token = Some ''tok'', lp_userId = Some ''u1''\<rparr>)"
    using l by (simp add: truthy_def example_login_def)
  note t = persistence_best_effort[of example_hash "''sid-2''" None login_ok example_login example_server
      "\<lparr>lp_status = Some 0, lp_token = Some ''tok'', lp_userId = Some ''u1''\<rparr>" "Some ''sid-1''"]
  from t h
  have a: "fst (connect_route example_hash ''sid-2'' (WriteFails None) login_ok example_login example_server)
           = json (ConnectBody ''sid-2'')"
    by blast
  from t h
  have b: "sessions (snd (connect_route example_hash ''sid-2'' (WriteFails None) login_ok example_login example_server))
       ''sid-2'' \<noteq> None"
    by blast
  have "Some ''sid-1'' = Some ''sid-1'' \<and> ''sid-1'' \<noteq> []" by simp
  with t
  have c: "sessions (snd (disconnect_route (WriteFails None) (Some ''sid-1'') example_server)) ''sid-1'' = None"
    by blast
  have d: "sessionsFile (snd (connect_route example_hash ''sid-2'' (WriteFails None) login_ok example_login example_server))
       = None"
    using h by (simp add: connect_success saveSessions_def)
  show ?thesis using a b c d by simp
qed

section \<open>The read route\<close>

text \<open>On items with valid dates the sort is the stable sort by decreasing time.\<close>

lemma insert_item_valid:
  "item_time x \<noteq> None \<Longrightarrow> \<forall>y\<in>set ys. item_time y \<noteq> None \<Longrightarrow>
   insert_item x ys = insort_key (\<lambda>x. - the (item_time x)) x ys"
  by (induction ys) (auto simp: compare_items_def)

lemma sort_items_valid:
  "\<forall>x\<in>set items. item_time x \<noteq> None \<Longrightarrow>
   sort_items items = sort_key (\<lambda>x. - the (item_time x)) items"
proof (induction items)
  case Nil
  show ?case by (simp add: sort_items_def)
next
  case (Cons x items)
  then have ih: "sort_items items = sort_key (\<lambda>x. - the (item_time x)) items" by simp
  have "\<forall>y\<in>set (sort_key (\<lambda>x. - the (item_time x)) items). item_time y \<noteq> None"
    using Cons.prems by simp
  then have "insert_item x (sort_key (\<lambda>x. - the (item_time x)) items)
      = insort_key (\<lambda>x. - the (item_time x)) x (sort_key (\<lambda>x. - the (item_time x)) items)"
    using Cons.prems by (intro insert_item_valid) simp_all
  then show ?case using ih by (simp add: sort_items_def)
qed

lemma respond_status: "http_status (respond now reading trendArrow sensorInfo) \<in> {200, 204}"
  by (simp add: respond_def json_def status_end_def split: option.splits)

lemma read_first_status:
  "read_first now vgraph first = Inr resp \<Longrightarrow> http_status resp \<in> {200, 204}"
  using respond_status
  by (auto simp: read_first_def bind_exn_def Let_def split: sum.splits option.splits if_splits)

lemma read_try_status:
  assumes "sessions s sid = Some sess" and "sid \<noteq> []"
    and "read_try now vcons vgraph (Some sid) s = Inr (resp, s')"
  shows "http_status resp \<in> {200, 204, 401}"
proof (cases "fst (axiosWithRetry vcons 3)")
  case (Inl err)
  with assms show ?thesis by (simp add: read_try_def)
next
  case (Inr cons)
  show ?thesis
  proof (cases "cons_status cons = 401")
    case True
    with assms Inr show ?thesis by (auto simp: read_try_def status_json_def)
  next
    case False
    show ?thesis
    proof (cases "select_first (cons_data cons)")
      case None
      with assms Inr False show ?thesis by (auto simp: read_try_def status_end_def)
    next
      case (Some first)
      with assms Inr False have "read_first now vgraph first = Inr resp"
        by (auto simp: read_try_def bind_exn_def split: sum.splits)
      then show ?thesis using read_first_status by fastforce
    qed
  qed
qed

lemma read_try_vendor_throws:
  assumes "sessions s sid = Some sess" and "sid \<noteq> []"
    and "fst (axiosWithRetry vcons 3) = Inl err"
  shows "read_try now vcons vgraph (Some sid) s = Inl (AxiosError err)"
  using assms by (simp add: read_try_def)

lemma read_try_no_connection:
  assumes "sessions s sid = Some sess" and "sid \<noteq> []"
    and "fst (axiosWithRetry vcons 3) = Inr cons" and "cons_status cons \<noteq> 401"
    and "select_first (cons_data cons) = None"
  shows "read_try now vcons vgraph (Some sid) s = Inr (status_end 204, s)"
  using assms by (simp add: read_try_def)

lemma graph_timeout_try:
  "read_try 1700000000000 cons_ok graph_timeout (Some ''sid-1'') example_server
     = Inl (AxiosError timeoutError)"
proof -
  have g: "fst (axiosWithRetry graph_timeout 3) = Inl timeoutError"
    using retry_const_error[of timeoutError 3] by (simp add: graph_timeout_def[abs_def])
  show ?thesis
    by (simp add: read_try_def example_server_def retry_ok cons_ok_def select_first_def
        conn_no_reading_def read_first_def nullish_def bind_exn_def g)
qed

text \<open>
  C9: when the session is found, every exception thrown inside the read route, by a vendor
  request or while the payload is processed (an invalid date in the embedded measurement,
  in the sensor or in the latest graph item), is answered with an empty 204, which is also
  the answer when the vendor has no connection to report; the status of the answer is
  always 200, 204 or 401, never 5xx.
\<close>

theorem read_failure_is_204:
  assumes "sessions s sid = Some sess" and "sid \<noteq> []"
  shows "(\<forall>e. read_try now vcons vgraph (Some sid) s = Inl e \<longrightarrow>
            read_route now vcons vgraph (Some sid) s = (status_end 204, s))
       \<and> (\<forall>err. fst (axiosWithRetry vcons 3) = Inl err \<longrightarrow>
            read_route now vcons vgraph (Some sid) s = (status_end 204, s))
       \<and> (\<forall>cons. fst (axiosWithRetry vcons 3) = Inr cons \<and> cons_status cons \<noteq> 401
              \<and> select_first (cons_data cons) = None \<longrightarrow>
            read_route now vcons vgraph (Some sid) s = (status_end 204, s))
       \<and> http_status (fst (read_route now vcons vgraph (Some sid) s)) \<in> {200, 204, 401}
       \<and> http_status (fst (read_route now vcons vgraph (Some sid) s)) < 500"
proof -
  have a: "\<forall>e. read_try now vcons vgraph (Some sid) s = Inl e \<longrightarrow>
            read_route now vcons vgraph (Some sid) s = (status_end 204, s)"
    by (simp add: read_route_def)
  have b: "\<forall>err. fst (axiosWithRetry vcons 3) = Inl err \<longrightarrow>
            read_route now vcons vgraph (Some sid) s = (status_end 204, s)"
    using read_try_vendor_throws[OF assms] by (simp add: read_route_def)
  have c: "\<forall>cons. fst (axiosWithRetry vcons 3) = Inr cons \<and> cons_status cons \<noteq> 401
              \<and> select_first (cons_data cons) = None \<longrightarrow>
            read_route now vcons vgraph (Some sid) s = (status_end 204, s)"
    using read_try_no_connection[OF assms] by (simp add: read_route_def)
  have d: "http_status (fst (read_route now vcons vgraph (Some sid) s)) \<in> {200, 204, 401}"
  proof (cases "read_try now vcons vgraph (Some sid) s")
    case (Inl e)
    then show ?thesis by (simp add: read_route_def status_end_def)
  next
    case (Inr r)
    obtain resp s' where r: "r = (resp, s')" by (cases r)
    with Inr read_try_status[OF assms] have "http_status resp \<in> {200, 204, 401}" by blast
    with Inr r show ?thesis by (simp add: read_route_def)
  qed
  from d have e: "http_status (fst (read_route now vcons vgraph (Some sid) s)) < 500" by auto
  from a b c d e show ?thesis by blast
qed

theorem read_failure_is_204_witness:
  "read_route 1700000000000 cons_timeout graph_401 (Some ''sid-1'') example_server
     = (status_end 204, example_server)
   \<and> read_route 1700000000000 cons_invalid_date graph_401 (Some ''sid-1'') example_server
     = (status_end 204, example_server)
   \<and> read_route 1700000000000 cons_empty graph_401 (Some ''sid-1'') example_server
     = (status_end 204, example_server)
   \<and> read_route 1700000000000 cons_ok graph_timeout (Some ''sid-1'') example_server
     = (status_end 204, example_server)
   \<and> read_route 1700000000000 cons_ok graph_invalid_date (Some ''sid-1'') example_server
     = (status_end 204, example_server)"
proof -
  have s: "sessions example_server ''sid-1'' = Some example_session" "''sid-1'' \<noteq> []"
    by (simp_all add: example_server_def)
  have t3: "fst (axiosWithRetry cons_timeout 3) = Inl timeoutError"
    using retry_const_error[of timeoutError 3] by (simp add: cons_timeout_def[abs_def])
  note inst = read_failure_is_204[OF s]
  from inst[of _ cons_timeout] t3
  have a: "read_route 1700000000000 cons_timeout graph_401 (Some ''sid-1'') example_server
     = (status_end 204, example_server)" by blast
  have "read_try 1700000000000 cons_invalid_date graph_401 (Some ''sid-1'') example_server = Inl RangeError"
    by (simp add: read_try_def example_server_def retry_ok cons_invalid_date_def select_first_def
        conn_invalid_date_def read_first_def nullish_def invalid_glucose_def gm_reading_def
        toISOString_def bind_exn_def)
  with inst[of 1700000000000 cons_invalid_date graph_401]
  have b: "read_route 1700000000000 cons_invalid_date graph_401 (Some ''sid-1'') example_server
     = (status_end 204, example_server)" by blast
  have "fst (axiosWithRetry cons_empty 3) = Inr \<lparr>cons_status = 200, cons_data = Some []\<rparr>
        \<and> cons_status \<lparr>cons_status = 200, cons_data = Some []\<rparr> \<noteq> 401
        \<and> select_first (cons_data \<lparr>cons_status = 200, cons_data = Some []\<rparr>) = None"
    by (simp add: retry_ok cons_empty_def select_first_def)
  with inst[of _ cons_empty]
  have c: "read_route 1700000000000 cons_empty graph_401 (Some ''sid-1'') example_server
     = (status_end 204, example_server)" by blast
  from inst[of 1700000000000 cons_ok graph_timeout] graph_timeout_try
  have d: "read_route 1700000000000 cons_ok graph_timeout (Some ''sid-1'') example_server
     = (status_end 204, example_server)" by blast
  have "read_try 1700000000000 cons_ok graph_invalid_date (Some ''sid-1'') example_server = Inl RangeError"
    by (simp add: read_try_def example_server_def retry_ok cons_ok_def select_first_def
        conn_no_reading_def read_first_def nullish_def bind_exn_def graph_invalid_date_def
        latest_item_def sort_items_def invalid_item_def graph_reading_def toISOString_def)
  with inst[of 1700000000000 cons_ok graph_invalid_date]
  have e: "read_route 1700000000000 cons_ok graph_invalid_date (Some ''sid-1'') example_server
     = (status_end 204, example_server)" by blast
  from a b c d e show ?thesis by simp
qed

text \<open>
  The step that does check for 401: a 401 to the connections request removes the session
  and is answered with 401.
\<close>

lemma connections_401_removes_session:
  assumes "sessions s sid = Some sess" and "sid \<noteq> []"
    and "fst (axiosWithRetry vcons 3) = Inr cons" and "cons_status cons = 401"
  shows "read_route now vcons vgraph (Some sid) s =
           (status_json 401 (ErrorBody ''Token expired''), s\<lparr>sessions := (sessions s)(sid := None)\<rparr>)"
  using assms by (simp add: read_route_def read_try_def)

text \<open>
  C3 at a failing input: the connections request is answered with 200 and a connection
  without a measurement, the graph request with 401. The route answers with an empty 204
  and the session stays in the table.
\<close>

theorem graph_401_keeps_session:
  "read_route 1700000000000 cons_ok graph_401 (Some ''sid-1'') example_server
     = (status_end 204, example_server)
   \<and> sessions (snd (read_route 1700000000000 cons_ok graph_401 (Some ''sid-1'') example_server)) ''sid-1''
     = Some example_session"
proof -
  have "read_try 1700000000000 cons_ok graph_401 (Some ''sid-1'') example_server
          = Inr (status_end 204, example_server)"
    by (simp add: read_try_def example_server_def retry_ok cons_ok_def select_first_def
        conn_no_reading_def read_first_def nullish_def bind_exn_def graph_401_def latest_item_def
        sort_items_def respond_def)
  then show ?thesis by (simp add: read_route_def example_server_def)
qed

section \<open>The sync loop and the log\<close>

lemma logEntries_updateSettings [simp]: "logEntries (updateSettings patch c) = logEntries c"
  by (simp add: updateSettings_def)

lemma logEntries_render [simp]: "logEntries (render c) = logEntries c"
  by (simp add: render_def)

lemma logEntries_disconnectLibre [simp]: "logEntries (disconnectLibre a c) = logEntries c"
  by (simp add: disconnectLibre_def)

lemma newEntries_empty_cases:
  "(\<forall>r\<in>set rs. r_timestamp r \<in> ex \<or> r_value r = None) \<or> \<not> truthy pid
     \<Longrightarrow> newEntries u k ex pid rs = []"
  by (induction rs arbitrary: k) auto

lemma newEntries_member:
  "e \<in> set (newEntries u k ex pid rs) \<Longrightarrow>
     \<exists>r\<in>set rs. \<exists>v. r_value r = Some v \<and> r_timestamp r \<notin> ex \<and> truthy pid
        \<and> le_timestamp e = r_timestamp r \<and> le_profileId e = the pid
        \<and> le_data e = BloodSugar v CGM (r_trendArrow r)"
proof (induction rs arbitrary: k)
  case Nil
  then show ?case by simp
next
  case (Cons r rs)
  show ?case
  proof (cases "r_timestamp r \<notin> ex \<and> r_value r \<noteq> None \<and> truthy pid")
    case True
    with Cons.prems have "e = \<lparr>le_id = u k, le_timestamp = r_timestamp r, le_profileId = the pid,
            le_data = BloodSugar (the (r_value r)) CGM (r_trendArrow r)\<rparr>
          \<or> e \<in> set (newEntries u (Suc k) ex pid rs)"
      by auto
    then show ?thesis
    proof
      assume "e = \<lparr>le_id = u k, le_timestamp = r_timestamp r, le_profileId = the pid,
            le_data = BloodSugar (the (r_value r)) CGM (r_trendArrow r)\<rparr>"
      with True show ?thesis by auto
    next
      assume "e \<in> set (newEntries u (Suc k) ex pid rs)"
      from Cons.IH[OF this] show ?thesis by auto
    qed
  next
    case False
    with Cons.prems have "e \<in> set (newEntries u k ex pid rs)" by (auto split: if_splits)
    from Cons.IH[OF this] show ?thesis by auto
  qed
qed

lemma mset_sortDesc: "mset (sortDesc g xs) = mset xs"
  by (simp add: sortDesc_def)

lemma mset_syncUpdater:
  "mset (syncUpdater g u k pid rs prev)
     = mset prev + mset (newEntries u k (set (map le_timestamp prev)) pid rs)"
  by (simp add: syncUpdater_def Let_def mset_sortDesc)

lemma syncUpdater_noop:
  "newEntries u k (set (map le_timestamp prev)) pid rs = [] \<Longrightarrow> syncUpdater g u k pid rs prev = prev"
  by (simp add: syncUpdater_def)

lemma logEntries_sync:
  "logEntries (syncLibreData g u a n fetched c) =
     (case fetched of
        Inr (Some rs) \<Rightarrow>
          if libreSessionId c = None then logEntries c
          else syncUpdater g u (uuid_count c) (activeProfileIdRef c) rs (logEntries c)
      | _ \<Rightarrow> logEntries c)"
  by (simp add: syncLibreData_def Let_def syncUpdater_def split: sum.splits option.splits list.splits)

text \<open>
  C10: the entries a tick adds to the log are blood-sugar entries of measurement type CGM
  that carry the value of a fetched reading whose value is not null, and the profile id
  held by \<open>activeProfileIdRef\<close> at that moment; a tick whose readings all have a null
  value, or a tick without an active profile, leaves the log as it was.
\<close>

theorem sync_appends_cgm_only:
  "(\<exists>new. mset (logEntries (syncLibreData g u a n fetched c)) = mset (logEntries c) + mset new
      \<and> (\<forall>e\<in>set new. \<exists>rs r v. fetched = Inr (Some rs) \<and> r \<in> set rs \<and> r_value r = Some v
             \<and> le_data e = BloodSugar v CGM (r_trendArrow r)
             \<and> le_timestamp e = r_timestamp r
             \<and> activeProfileIdRef c = Some (le_profileId e) \<and> le_profileId e \<noteq> []))
   \<and> ((\<forall>r\<in>set rs. r_value r = None) \<longrightarrow>
        logEntries (syncLibreData g u a n (Inr (Some rs)) c) = logEntries c)
   \<and> (\<not> truthy (activeProfileIdRef c) \<longrightarrow>
        logEntries (syncLibreData g u a n fetched c) = logEntries c)"
proof (intro conjI impI)
  show "\<exists>new. mset (logEntries (syncLibreData g u a n fetched c)) = mset (logEntries c) + mset new
      \<and> (\<forall>e\<in>set new. \<exists>rs r v. fetched = Inr (Some rs) \<and> r \<in> set rs \<and> r_value r = Some v
             \<and> le_data e = BloodSugar v CGM (r_trendArrow r)
             \<and> le_timestamp e = r_timestamp r
             \<and> activeProfileIdRef c = Some (le_profileId e) \<and> le_profileId e \<noteq> [])"
  proof (cases "\<exists>rs. fetched = Inr (Some rs) \<and> libreSessionId c \<noteq> None")
    case True
    then obtain rs where f: "fetched = Inr (Some rs)" and m: "libreSessionId c \<noteq> None" by blast
    let ?new = "newEntries u (uuid_count c) (set (map le_timestamp (logEntries c))) (activeProfileIdRef c) rs"
    have "mset (logEntries (syncLibreData g u a n fetched c)) = mset (logEntries c) + mset ?new"
      using f m by (auto simp: logEntries_sync mset_syncUpdater)
    moreover have "\<forall>e\<in>set ?new. \<exists>rs r v. fetched = Inr (Some rs) \<and> r \<in> set rs \<and> r_value r = Some v
             \<and> le_data e = BloodSugar v CGM (r_trendArrow r)
             \<and> le_timestamp e = r_timestamp r
             \<and> activeProfileIdRef c = Some (le_profileId e) \<and> le_profileId e \<noteq> []"
    proof
      fix e assume "e \<in> set ?new"
      from newEntries_member[OF this] obtain r v where
        r: "r \<in> set rs" "r_value r = Some v" "truthy (activeProfileIdRef c)"
           "le_timestamp e = r_timestamp r" "le_profileId e = the (activeProfileIdRef c)"
           "le_data e = BloodSugar v CGM (r_trendArrow r)"
        by blast
      from r(3,5) have "activeProfileIdRef c = Some (le_profileId e) \<and> le_profileId e \<noteq> []"
        by (auto simp: truthy_def split: option.splits)
      with f r show "\<exists>rs r v. fetched = Inr (Some rs) \<and> r \<in> set rs \<and> r_value r = Some v
             \<and> le_data e = BloodSugar v CGM (r_trendArrow r)
             \<and> le_timestamp e = r_timestamp r
             \<and> activeProfileIdRef c = Some (le_profileId e) \<and> le_profileId e \<noteq> []"
        by blast
    qed
    ultimately show ?thesis by blast
  next
    case False
    then have "logEntries (syncLibreData g u a n fetched c) = logEntries c"
      by (auto simp: logEntries_sync split: sum.splits option.splits)
    then show ?thesis by (intro exI[of _ "[]"]) simp
  qed
next
  assume "\<forall>r\<in>set rs. r_value r = None"
  then have "newEntries u (uuid_count c) (set (map le_timestamp (logEntries c))) (activeProfileIdRef c) rs = []"
    by (intro newEntries_empty_cases) simp
  then show "logEntries (syncLibreData g u a n (Inr (Some rs)) c) = logEntries c"
    by (simp add: logEntries_sync syncUpdater_noop)
next
  assume "\<not> truthy (activeProfileIdRef c)"
  then have "\<And>rs. newEntries u (uuid_count c) (set (map le_timestamp (logEntries c))) (activeProfileIdRef c) rs = []"
    by (intro newEntries_empty_cases) simp
  then show "logEntries (syncLibreData g u a n fetched c) = logEntries c"
    by (simp add: logEntries_sync syncUpdater_noop split: sum.splits option.splits)
qed

lemma example_tick:
  "logEntries (syncLibreData exampleTime example_uuid example_apiDisconnect ''2024-01-01T10:00:30.000Z''
       (Inr (Some [reading_110])) example_client) = [entry_110]"
  by (simp add: logEntries_sync example_client_def syncUpdater_def reading_110_def truthy_def
       sortDesc_def entry_110_def example_uuid_def)

theorem sync_appends_cgm_only_witness:
  "logEntries (syncLibreData exampleTime example_uuid example_apiDisconnect ''2024-01-01T10:00:30.000Z''
       (Inr (Some [reading_110])) example_client) = [entry_110]
   \<and> le_data entry_110 = BloodSugar 110 CGM (Some 3)
   \<and> activeProfileIdRef example_client = Some (le_profileId entry_110)
   \<and> logEntries (syncLibreData exampleTime example_uuid example_apiDisconnect ''2024-01-01T10:05:30.000Z''
       (Inr (Some [reading_null])) example_client) = logEntries example_client
   \<and> logEntries (syncLibreData exampleTime example_uuid example_apiDisconnect ''2024-01-01T10:00:30.000Z''
       (Inr (Some [reading_110])) (example_client\<lparr>activeProfileIdRef := None\<rparr>))
       = logEntries (example_client\<lparr>activeProfileIdRef := None\<rparr>)"
proof -
  note t = sync_appends_cgm_only[of exampleTime example_uuid example_apiDisconnect]
  have "\<forall>r\<in>set [reading_null]. r_value r = None" by (simp add: reading_null_def)
  with t[of "''2024-01-01T10:05:30.000Z''" _ example_client "[reading_null]"]
  have a: "logEntries (syncLibreData exampleTime example_uuid example_apiDisconnect ''2024-01-01T10:05:30.000Z''
       (Inr (Some [reading_null])) example_client) = logEntries example_client"
    by blast
  have "\<not> truthy (activeProfileIdRef (example_client\<lparr>activeProfileIdRef := None\<rparr>))"
    by (simp add: truthy_def)
  with t[of "''2024-01-01T10:00:30.000Z''" "Inr (Some [reading_110])" "example_client\<lparr>activeProfileIdRef := None\<rparr>"]
  have b: "logEntries (syncLibreData exampleTime example_uuid example_apiDisconnect ''2024-01-01T10:00:30.000Z''
       (Inr (Some [reading_110])) (example_client\<lparr>activeProfileIdRef := None\<rparr>))
       = logEntries (example_client\<lparr>activeProfileIdRef := None\<rparr>)"
    by blast
  have c: "le_data entry_110 = BloodSugar 110 CGM (Some 3)
     \<and> activeProfileIdRef example_client = Some (le_profileId entry_110)"
    by (simp add: entry_110_def example_client_def)
  from example_tick a b c show ?thesis by simp
qed

lemma polls_fixed:
  "r_timestamp r \<in> le_timestamp ` set (logEntries c) \<Longrightarrow>
   logEntries (polls g u a r nows c) = logEntries c"
proof (induction nows arbitrary: c)
  case Nil
  show ?case by simp
next
  case (Cons nowISO nows)
  let ?c1 = "render (syncLibreData g u a nowISO (Inr (Some [r])) c)"
  have "newEntries u (uuid_count c) (set (map le_timestamp (logEntries c))) (activeProfileIdRef c) [r] = []"
    using Cons.prems by (intro newEntries_empty_cases) simp
  then have same: "logEntries ?c1 = logEntries c"
    by (simp add: logEntries_sync syncUpdater_noop)
  with Cons.prems have "r_timestamp r \<in> le_timestamp ` set (logEntries ?c1)" by simp
  from Cons.IH[OF this] same show ?case by simp
qed

lemma count_sortDesc:
  "length (filter P (sortDesc g xs)) = length (filter P xs)"
proof -
  have "mset (filter P (sortDesc g xs)) = mset (filter P xs)"
    by (simp add: mset_sortDesc)
  then show ?thesis by (metis size_mset)
qed

lemma first_tick:
  assumes "libreSessionId c \<noteq> None" and "truthy (activeProfileIdRef c)" and "r_value r \<noteq> None"
    and "r_timestamp r \<notin> le_timestamp ` set (logEntries c)"
  shows "logEntries (syncLibreData g u a nowISO (Inr (Some [r])) c) =
     sortDesc g (logEntries c @
       [\<lparr>le_id = u (uuid_count c), le_timestamp = r_timestamp r, le_profileId = the (activeProfileIdRef c),
         le_data = BloodSugar (the (r_value r)) CGM (r_trendArrow r)\<rparr>])"
  using assms by (auto simp: logEntries_sync syncUpdater_def)

lemma filter_absent:
  "t \<notin> le_timestamp ` set xs \<Longrightarrow> filter (\<lambda>e. le_timestamp e = t) xs = []"
  by (induction xs) auto

text \<open>
  C1: a tick whose reading has the timestamp of an entry of the active profile leaves the
  log unchanged, as does every tick all of whose readings have timestamps already in the
  log, and every later poll of a reading whose timestamp is in the log. Polling the same
  reading, with a value, at least once from a log without its timestamp, with a session
  and an active profile, yields exactly one entry with that timestamp, and one entry more
  in the log.
\<close>

theorem sync_dedup:
  "((\<exists>e\<in>set (logEntries c). le_timestamp e = r_timestamp r \<and> Some (le_profileId e) = activeProfileIdRef c)
       \<longrightarrow> logEntries (syncLibreData g u a nowISO (Inr (Some [r])) c) = logEntries c)
   \<and> ((\<forall>x\<in>set rs. r_timestamp x \<in> le_timestamp ` set (logEntries c))
       \<longrightarrow> logEntries (syncLibreData g u a nowISO (Inr (Some rs)) c) = logEntries c)
   \<and> (r_timestamp r \<in> le_timestamp ` set (logEntries c)
       \<longrightarrow> logEntries (polls g u a r nows c) = logEntries c)
   \<and> (nows \<noteq> [] \<and> libreSessionId c \<noteq> None \<and> truthy (activeProfileIdRef c) \<and> r_value r \<noteq> None
        \<and> r_timestamp r \<notin> le_timestamp ` set (logEntries c)
       \<longrightarrow> length (filter (\<lambda>e. le_timestamp e = r_timestamp r) (logEntries (polls g u a r nows c))) = 1
         \<and> length (logEntries (polls g u a r nows c)) = Suc (length (logEntries c)))"
proof (intro conjI impI)
  assume "\<exists>e\<in>set (logEntries c). le_timestamp e = r_timestamp r \<and> Some (le_profileId e) = activeProfileIdRef c"
  then have "r_timestamp r \<in> set (map le_timestamp (logEntries c))" by force
  then have "newEntries u (uuid_count c) (set (map le_timestamp (logEntries c))) (activeProfileIdRef c) [r] = []"
    by (intro newEntries_empty_cases) simp
  then show "logEntries (syncLibreData g u a nowISO (Inr (Some [r])) c) = logEntries c"
    by (simp add: logEntries_sync syncUpdater_noop)
next
  assume "\<forall>x\<in>set rs. r_timestamp x \<in> le_timestamp ` set (logEntries c)"
  then have "newEntries u (uuid_count c) (set (map le_timestamp (logEntries c))) (activeProfileIdRef c) rs = []"
    by (intro newEntries_empty_cases) simp
  then show "logEntries (syncLibreData g u a nowISO (Inr (Some rs)) c) = logEntries c"
    by (simp add: logEntries_sync syncUpdater_noop)
next
  assume "r_timestamp r \<in> le_timestamp ` set (logEntries c)"
  then show "logEntries (polls g u a r nows c) = logEntries c" by (rule polls_fixed)
next
  assume h: "nows \<noteq> [] \<and> libreSessionId c \<noteq> None \<and> truthy (activeProfileIdRef c) \<and> r_value r \<noteq> None
        \<and> r_timestamp r \<notin> le_timestamp ` set (logEntries c)"
  then obtain now0 rest where n: "nows = now0 # rest" by (cases nows) auto
  let ?e = "\<lparr>le_id = u (uuid_count c), le_timestamp = r_timestamp r, le_profileId = the (activeProfileIdRef c),
         le_data = BloodSugar (the (r_value r)) CGM (r_trendArrow r)\<rparr>"
  let ?c1 = "render (syncLibreData g u a now0 (Inr (Some [r])) c)"
  have l1: "logEntries ?c1 = sortDesc g (logEntries c @ [?e])"
    using h by (simp add: first_tick)
  have "set (logEntries ?c1) = set (logEntries c @ [?e])"
    unfolding l1 by (metis mset_sortDesc set_mset_mset)
  then have "r_timestamp r \<in> le_timestamp ` set (logEntries ?c1)" by force
  then have fixed: "logEntries (polls g u a r nows c) = logEntries ?c1"
    using n polls_fixed[of r ?c1 g u a rest] by simp
  have cnt: "length (filter (\<lambda>e. le_timestamp e = r_timestamp r) (logEntries c @ [?e])) = 1"
    using h by (simp add: filter_absent)
  show "length (filter (\<lambda>e. le_timestamp e = r_timestamp r) (logEntries (polls g u a r nows c))) = 1"
    unfolding fixed l1 count_sortDesc by (rule cnt)
  show "length (logEntries (polls g u a r nows c)) = Suc (length (logEntries c))"
    unfolding fixed l1 by (simp add: sortDesc_def)
qed

theorem sync_dedup_witness:
  "logEntries (polls exampleTime example_uuid example_apiDisconnect reading_110
       [''2024-01-01T10:00:30.000Z'', ''2024-01-01T10:01:00.000Z'', ''2024-01-01T10:01:30.000Z''] example_client)
     = [entry_110]
   \<and> logEntries (syncLibreData exampleTime example_uuid example_apiDisconnect ''2024-01-01T10:01:00.000Z''
       (Inr (Some [reading_110])) (example_client\<lparr>logEntries := [entry_110]\<rparr>)) = [entry_110]"
proof -
  let ?nows = "[''2024-01-01T10:00:30.000Z'', ''2024-01-01T10:01:00.000Z'', ''2024-01-01T10:01:30.000Z'']"
  let ?c1 = "example_client\<lparr>logEntries := [entry_110]\<rparr>"
  let ?c2 = "render (syncLibreData exampleTime example_uuid example_apiDisconnect ''2024-01-01T10:00:30.000Z''
       (Inr (Some [reading_110])) example_client)"
  have e: "\<exists>e\<in>set (logEntries ?c1). le_timestamp e = r_timestamp reading_110
            \<and> Some (le_profileId e) = activeProfileIdRef ?c1"
    by (simp add: entry_110_def reading_110_def example_client_def)
  from sync_dedup[of ?c1 reading_110 exampleTime example_uuid example_apiDisconnect] e
  have a: "logEntries (syncLibreData exampleTime example_uuid example_apiDisconnect ''2024-01-01T10:01:00.000Z''
       (Inr (Some [reading_110])) ?c1) = [entry_110]"
    by simp
  have h: "?nows \<noteq> [] \<and> libreSessionId example_client \<noteq> None \<and> truthy (activeProfileIdRef example_client)
        \<and> r_value reading_110 \<noteq> None
        \<and> r_timestamp reading_110 \<notin> le_timestamp ` set (logEntries example_client)"
    by (simp add: example_client_def truthy_def reading_110_def)
  from sync_dedup[of example_client reading_110 exampleTime example_uuid example_apiDisconnect _ _ ?nows] h
  have len: "length (logEntries (polls exampleTime example_uuid example_apiDisconnect reading_110 ?nows example_client))
       = Suc (length (logEntries example_client))"
    by blast
  have c2: "logEntries ?c2 = [entry_110]"
    by (simp add: example_tick)
  have t: "r_timestamp reading_110 \<in> le_timestamp ` set (logEntries ?c2)"
    unfolding c2 by (simp add: entry_110_def reading_110_def)
  from sync_dedup[of ?c2 reading_110 exampleTime example_uuid example_apiDisconnect _ _
      "[''2024-01-01T10:01:00.000Z'', ''2024-01-01T10:01:30.000Z'']"] t
  have "logEntries (polls exampleTime example_uuid example_apiDisconnect reading_110
           [''2024-01-01T10:01:00.000Z'', ''2024-01-01T10:01:30.000Z''] ?c2) = logEntries ?c2"
    by blast
  then have b: "logEntries (polls exampleTime example_uuid example_apiDisconnect reading_110 ?nows example_client)
     = [entry_110]"
    using c2 by simp
  from a b show ?thesis by simp
qed

lemma sortedDesc_sortDesc: "sortedDesc g p (sortDesc g xs)"
proof -
  have "sorted (map (\<lambda>e. - g (le_timestamp e)) (sort_key (\<lambda>e. - g (le_timestamp e)) xs))"
    by (rule sorted_sort_key)
  then have "sorted_wrt (\<lambda>a b. g (le_timestamp b) \<le> g (le_timestamp a)) (sortDesc g xs)"
    by (simp add: sorted_map sortDesc_def)
  then show ?thesis
    unfolding sortedDesc_def by (rule sorted_wrt_filter)
qed

lemma logEntries_addEntry:
  "logEntries (addEntry g u n d c) =
     (if truthy (activeProfileId c)
      then sortDesc g (logEntries c @ [\<lparr>le_id = u (uuid_count c), le_timestamp = or_else (snd d) n,
                                         le_profileId = the (activeProfileId c), le_data = fst d\<rparr>])
      else logEntries c)"
  by (simp add: addEntry_def truthy_def Let_def split: option.splits)

lemma sync_log_cases:
  "logEntries (syncLibreData g u a n f c) = logEntries c
   \<or> (\<exists>xs. logEntries (syncLibreData g u a n f c) = sortDesc g xs)"
  by (auto simp: logEntries_sync syncUpdater_def Let_def split: sum.splits option.splits)

lemma run_op_sorted:
  "sortedDesc g p (logEntries c) \<Longrightarrow> sortedDesc g p (logEntries (run_op g u a x c))"
proof (cases x)
  case (AddEntry n d)
  assume "sortedDesc g p (logEntries c)"
  then show ?thesis
    using AddEntry by (simp add: logEntries_addEntry sortedDesc_sortDesc)
next
  case (SyncTick n f)
  assume "sortedDesc g p (logEntries c)"
  then show ?thesis
    using SyncTick sync_log_cases[of g u a n f c] by (auto simp: sortedDesc_sortDesc)
next
  case (SwitchProfile pid)
  assume "sortedDesc g p (logEntries c)"
  then show ?thesis using SwitchProfile by (simp add: switchProfile_def)
qed

lemma run_ops_sorted:
  "sortedDesc g p (logEntries c) \<Longrightarrow> sortedDesc g p (logEntries (run_ops g u a ops c))"
  by (induction ops arbitrary: c) (simp_all add: run_op_sorted)

text \<open>
  C6: the entries of every profile are sorted by timestamp, descending, after
  \<open>addEntry\<close> has inserted and after a tick has inserted; the order is kept by every
  sequence of insertions, ticks and profile switches, and it holds after every such
  sequence that starts from the empty log.
\<close>

theorem log_sorted_desc:
  "(truthy (activeProfileId c) \<longrightarrow> sortedDesc g p (logEntries (addEntry g u n d c)))
   \<and> (logEntries (syncLibreData g u a n f c) \<noteq> logEntries c \<longrightarrow>
        sortedDesc g p (logEntries (syncLibreData g u a n f c)))
   \<and> (sortedDesc g p (logEntries c) \<longrightarrow> sortedDesc g p (logEntries (run_ops g u a ops c)))
   \<and> sortedDesc g p (logEntries (run_ops g u a ops (c\<lparr>logEntries := []\<rparr>)))"
proof (intro conjI impI)
  assume "truthy (activeProfileId c)"
  then show "sortedDesc g p (logEntries (addEntry g u n d c))"
    by (simp add: logEntries_addEntry sortedDesc_sortDesc)
next
  assume "logEntries (syncLibreData g u a n f c) \<noteq> logEntries c"
  with sync_log_cases[of g u a n f c]
  show "sortedDesc g p (logEntries (syncLibreData g u a n f c))"
    by (auto simp: sortedDesc_sortDesc)
next
  assume "sortedDesc g p (logEntries c)"
  then show "sortedDesc g p (logEntries (run_ops g u a ops c))" by (rule run_ops_sorted)
next
  have "sortedDesc g p (logEntries (c\<lparr>logEntries := []\<rparr>))" by (simp add: sortedDesc_def)
  then show "sortedDesc g p (logEntries (run_ops g u a ops (c\<lparr>logEntries := []\<rparr>)))"
    by (rule run_ops_sorted)
qed

lemma example_run:
  "map le_timestamp (logEntries (run_ops exampleTime example_uuid example_apiDisconnect example_ops example_client))
     = [''2024-01-01T10:05:00.000Z'', ''2024-01-01T10:00:00.000Z'', ''2024-01-01T09:00:00.000Z'']"
  by (simp add: example_ops_def example_client_def manual_entry_def later_entry_def reading_110_def
      addEntry_def render_def settings_def syncLibreData_def syncUpdater_def updateSettings_def
      sortDesc_def exampleTime_def or_else_def truthy_def Let_def spread_def nullish_def
      initialSettings_libreLinkUp_def)

theorem log_sorted_desc_witness:
  "sortedDesc exampleTime ''p1''
     (logEntries (run_ops exampleTime example_uuid example_apiDisconnect example_ops example_client))
   \<and> map le_timestamp (logEntries (run_ops exampleTime example_uuid example_apiDisconnect example_ops example_client))
     = [''2024-01-01T10:05:00.000Z'', ''2024-01-01T10:00:00.000Z'', ''2024-01-01T09:00:00.000Z'']
   \<and> sortedDesc exampleTime ''p1''
     (logEntries (addEntry exampleTime example_uuid ''2024-01-01T09:30:00.000Z'' manual_entry example_client))
   \<and> sortedDesc exampleTime ''p1''
     (logEntries (syncLibreData exampleTime example_uuid example_apiDisconnect ''2024-01-01T10:00:30.000Z''
       (Inr (Some [reading_110])) example_client))"
proof -
  note t = log_sorted_desc[of example_client exampleTime "''p1''" example_uuid _ _ example_apiDisconnect]
  have s0: "sortedDesc exampleTime ''p1'' (logEntries example_client)"
    by (simp add: sortedDesc_def example_client_def)
  from t[of _ _ _ example_ops] s0
  have a: "sortedDesc exampleTime ''p1''
     (logEntries (run_ops exampleTime example_uuid example_apiDisconnect example_ops example_client))"
    by blast
  have "truthy (activeProfileId example_client)" by (simp add: truthy_def example_client_def)
  with t[of "''2024-01-01T09:30:00.000Z''" manual_entry]
  have b: "sortedDesc exampleTime ''p1''
     (logEntries (addEntry exampleTime example_uuid ''2024-01-01T09:30:00.000Z'' manual_entry example_client))"
    by blast
  have "logEntries (syncLibreData exampleTime example_uuid example_apiDisconnect ''2024-01-01T10:00:30.000Z''
       (Inr (Some [reading_110])) example_client) \<noteq> logEntries example_client"
    unfolding example_tick by (simp add: example_client_def)
  with t[of "''2024-01-01T10:00:30.000Z''" _ "Inr (Some [reading_110])"]
  have c: "sortedDesc exampleTime ''p1''
     (logEntries (syncLibreData exampleTime example_uuid example_apiDisconnect ''2024-01-01T10:00:30.000Z''
       (Inr (Some [reading_110])) example_client))"
    by blast
  from a b c example_run show ?thesis by simp
qed

section \<open>The explicit connect\<close>











end
